theory Spec2Isabelle
  imports Main
begin

section \<open>Controller registry and dispatch (custom\_components/smartir/controller.py)\<close>

text \<open>
  Python strings are modelled as \<^typ>\<open>string\<close>; a \<^typ>\<open>char\<close> stands for a code point
  below 256. Exceptions are values: the module raises plain \<open>Exception\<close> objects that
  differ by their message only, and \<open>get_controller\<close> has a handler for \<open>KeyError\<close>;
  the other constructors are the exceptions the batch runner meets.
\<close>

datatype py_exception =
    Exception string
  | KeyError string
  | AttributeError string
  | EOFError
  | FileNotFoundError
  | JSONDecodeError
  | KeyboardInterrupt

text \<open>
  \<open>isinstance(e, Exception)\<close>: of the exceptions above only \<open>KeyboardInterrupt\<close> is not
  a subclass of \<open>Exception\<close>, so an \<open>except Exception\<close> handler lets it pass.
\<close>

definition isinstance_Exception :: "py_exception \<Rightarrow> bool" where
  "isinstance_Exception e = (e \<noteq> KeyboardInterrupt)"

definition MQTT_CONTROLLER :: string where
  "MQTT_CONTROLLER = ''MQTT''"

definition UFOR11_CONTROLLER :: string where
  "UFOR11_CONTROLLER = ''UFOR11''"

definition ENC_BASE64 :: string where
  "ENC_BASE64 = ''Base64''"

definition ENC_HEX :: string where
  "ENC_HEX = ''Hex''"

definition ENC_PRONTO :: string where
  "ENC_PRONTO = ''Pronto''"

definition ENC_RAW :: string where
  "ENC_RAW = ''Raw''"

definition MQTT_COMMANDS_ENCODING :: "string list" where
  "MQTT_COMMANDS_ENCODING = [ENC_RAW]"

definition LOOKIN_COMMANDS_ENCODING :: "string list" where
  "LOOKIN_COMMANDS_ENCODING = [ENC_PRONTO, ENC_RAW]"

definition ESPHOME_COMMANDS_ENCODING :: "string list" where
  "ESPHOME_COMMANDS_ENCODING = [ENC_RAW]"

definition UFOR11_COMMANDS_ENCODING :: "string list" where
  "UFOR11_COMMANDS_ENCODING = [ENC_RAW]"

text \<open>
  The host platform is seen through one capability, \<open>hass.services.async_call\<close>. Its
  state is the log of the service calls made so far; \<open>service_data\<close> is the dictionary
  with the keys \<open>topic\<close> and \<open>payload\<close>.
\<close>

record service_data =
  topic :: string
  payload :: string

record service_call =
  domain :: string
  service :: string
  data :: service_data

record hass =
  service_calls :: "service_call list"

definition async_call :: "string \<Rightarrow> string \<Rightarrow> service_data \<Rightarrow> hass \<Rightarrow> hass" where
  "async_call d s sd h =
     h\<lparr>service_calls := service_calls h @ [\<lparr>domain = d, service = s, data = sd\<rparr>]\<rparr>"

text \<open>
  The two concrete classes. \<open>UFOR11Controller\<close> derives from \<open>MQTTController\<close> and
  overrides both \<open>check_encoding\<close> and \<open>send\<close>; the class tag of an object selects the
  method that runs. The delay is never inspected, so its type is left open.
\<close>

datatype controller_class = MQTTController | UFOR11Controller

record 'd controller =
  cls :: controller_class
  ctl_controller :: string
  ctl_encoding :: string
  ctl_controller_data :: string
  ctl_delay :: 'd

definition check_encoding :: "controller_class \<Rightarrow> string \<Rightarrow> py_exception + unit" where
  "check_encoding c encoding =
     (case c of
        MQTTController \<Rightarrow>
          (if encoding \<notin> set MQTT_COMMANDS_ENCODING
           then Inl (Exception ''The encoding is not supported by the mqtt controller.'')
           else Inr ())
      | UFOR11Controller \<Rightarrow>
          (if encoding \<notin> set UFOR11_COMMANDS_ENCODING
           then Inl (Exception ''The encoding is not supported by the UFO-R11 controller.'')
           else Inr ()))"

text \<open>
  \<open>AbstractController.__init__\<close>, inherited unchanged by both classes: the encoding
  check is its first statement, the field assignments follow. The constructor is given
  the platform state and hands it back, so that what it does to the platform is part of
  its result.
\<close>

definition new_controller ::
  "controller_class \<Rightarrow> string \<Rightarrow> string \<Rightarrow> string \<Rightarrow> 'd \<Rightarrow> hass
     \<Rightarrow> (py_exception + 'd controller) \<times> hass" where
  "new_controller c controller encoding controller_data delay h =
     (case check_encoding c encoding of
        Inl e \<Rightarrow> (Inl e, h)
      | Inr _ \<Rightarrow>
          (Inr \<lparr>cls = c, ctl_controller = controller, ctl_encoding = encoding,
                ctl_controller_data = controller_data, ctl_delay = delay\<rparr>, h))"

text \<open>
  The registry dictionary that \<open>get_controller\<close> builds. The function never reads it:
  the lookup \<open>controllers[controller]\<close> survives only in a comment.
\<close>

definition controllers :: "(string \<times> controller_class) list" where
  "controllers = [(MQTT_CONTROLLER, MQTTController), (UFOR11_CONTROLLER, UFOR11Controller)]"

definition get_controller ::
  "string \<Rightarrow> string \<Rightarrow> string \<Rightarrow> 'd \<Rightarrow> hass \<Rightarrow> (py_exception + 'd controller) \<times> hass" where
  "get_controller controller encoding controller_data delay h =
     (case new_controller UFOR11Controller controller encoding controller_data delay h of
        (Inl (KeyError _), h') \<Rightarrow> (Inl (Exception ''The controller is not supported.''), h')
      | r \<Rightarrow> r)"

subsection \<open>The JSON text of the UFO-R11 envelope\<close>

text \<open>
  \<open>json.dumps\<close> of the standard library with its default settings (\<open>ensure_ascii\<close>, the
  separators \<open>", "\<close> and \<open>": "\<close>), for a dictionary with one string key and one string
  value. A character is escaped as the library's ASCII encoder does: the quote and the
  backslash get a backslash, the control characters with a short form use it, every other
  character outside the range from space to tilde becomes \<open>\u00xx\<close> with lower-case
  hexadecimal digits.
\<close>

definition hex_digit :: "nat \<Rightarrow> char" where
  "hex_digit n = ''0123456789abcdef'' ! (n mod 16)"

definition json_escape_char :: "char \<Rightarrow> string" where
  "json_escape_char c =
     (if c = CHR 0x5C then [CHR 0x5C, CHR 0x5C]
      else if c = CHR 0x22 then [CHR 0x5C, CHR 0x22]
      else if c = CHR 0x08 then [CHR 0x5C, CHR ''b'']
      else if c = CHR 0x0C then [CHR 0x5C, CHR ''f'']
      else if c = CHR 0x0A then [CHR 0x5C, CHR ''n'']
      else if c = CHR 0x0D then [CHR 0x5C, CHR ''r'']
      else if c = CHR 0x09 then [CHR 0x5C, CHR ''t'']
      else if 0x20 \<le> (of_char c :: nat) \<and> (of_char c :: nat) \<le> 0x7E then [c]
      else [CHR 0x5C, CHR ''u'', CHR ''0'', CHR ''0'',
            hex_digit ((of_char c :: nat) div 16), hex_digit (of_char c :: nat)])"

definition json_dumps_str :: "string \<Rightarrow> string" where
  "json_dumps_str s = [CHR 0x22] @ concat (map json_escape_char s) @ [CHR 0x22]"

definition json_dumps_dict1 :: "string \<Rightarrow> string \<Rightarrow> string" where
  "json_dumps_dict1 k v = ''{'' @ json_dumps_str k @ '': '' @ json_dumps_str v @ ''}''"

text \<open>
  \<open>send\<close>: awaiting the coroutine makes one service call. The generic class publishes the
  command as it is, the UFO-R11 class publishes the envelope.
\<close>

definition send :: "'d controller \<Rightarrow> string \<Rightarrow> hass \<Rightarrow> hass" where
  "send self command h =
     (case cls self of
        MQTTController \<Rightarrow>
          async_call ''mqtt'' ''publish''
            \<lparr>topic = ctl_controller_data self, payload = command\<rparr> h
      | UFOR11Controller \<Rightarrow>
          async_call ''mqtt'' ''publish''
            \<lparr>topic = ctl_controller_data self,
             payload = json_dumps_dict1 ''ir_code_to_send'' command\<rparr> h)"

section \<open>Batch command runner (scripts/send\_toshiba\_commands.py)\<close>

subsection \<open>Parsed JSON and the flattening of a command table\<close>

text \<open>
  What \<open>json.load\<close> returns. A dictionary is the list of its items in iteration order
  (the order of the file), keys being distinct. A float is only ever tested for being
  zero.
\<close>

datatype py_float = Finite int int | Infinite bool | NaN

datatype json =
    JNull
  | JBool bool
  | JInt int
  | JFloat py_float
  | JStr string
  | JList "json list"
  | JDict "(string \<times> json) list"

text \<open>The f-string \<open>f"{path}.{key}" if path else key\<close>: an empty path is falsy.\<close>

definition current_path :: "string \<Rightarrow> string \<Rightarrow> string" where
  "current_path path key = (if path \<noteq> [] then path @ ''.'' @ key else key)"

text \<open>
  \<open>extract_recursive\<close> appends to the list \<open>all_commands\<close> of the enclosing function;
  here the list is passed in and returned. \<open>extract_items\<close> is the \<open>for\<close> loop over
  \<open>obj.items()\<close>. An object that is not a dictionary fails the \<open>isinstance\<close> test and
  nothing happens. The depth of the recursion is that of the parsed value; the
  interpreter's recursion limit is not modelled.
\<close>

fun extract_recursive :: "json \<Rightarrow> string \<Rightarrow> (string \<times> string) list \<Rightarrow> (string \<times> string) list"
  and extract_items ::
    "(string \<times> json) list \<Rightarrow> string \<Rightarrow> (string \<times> string) list \<Rightarrow> (string \<times> string) list"
where
  "extract_recursive (JDict items) path all_commands = extract_items items path all_commands"
| "extract_recursive obj path all_commands = all_commands"
| "extract_items [] path all_commands = all_commands"
| "extract_items ((key, JStr v) # items) path all_commands =
     extract_items items path (all_commands @ [(current_path path key, v)])"
| "extract_items ((key, v) # items) path all_commands =
     extract_items items path (extract_recursive v (current_path path key) all_commands)"

definition extract_all_commands :: "json \<Rightarrow> (string \<times> string) list" where
  "extract_all_commands commands = extract_recursive commands [] []"

subsection \<open>The environment of a run and what a run does to it\<close>

text \<open>
  The runner talks to the MQTT client library, the console and the file system. A run is
  modelled against a scripted environment: what loading the file gives, whether
  \<open>client.connect\<close> raises, which callbacks the network thread has delivered before each
  look of the main thread at \<open>self.connected\<close>, what each \<open>publish\<close> call gives and what each
  \<open>input\<close> call gives. The three scripts are indexed by the number of looks, publishes and
  prompts made so far.
\<close>

datatype callback = OnConnect int | OnDisconnect int | OnPublish int

datatype publish_outcome = PublishRc int | PublishRaises py_exception

datatype input_outcome = Line string | InputRaises py_exception

record env =
  load_result :: "py_exception + json"
  connect_raises :: "py_exception option"
  callbacks :: "nat \<Rightarrow> callback list"
  publish_result :: "nat \<Rightarrow> publish_outcome"
  input_result :: "nat \<Rightarrow> input_outcome"

text \<open>
  The trace is the sequence of the main thread's actions on the client, the console and
  the logger. A log record keeps its level and what the message is built from: each
  constructor of \<open>message\<close> stands for one \<open>logger\<close> call of the script, in the order of
  \<open>load_toshiba_commands\<close> (loaded, file not found, invalid JSON, other error), \<open>main\<close> before
  the batch (no commands, found \<open>n\<close> commands), \<open>connect\<close> (connecting to host and port,
  timeout, connection error), \<open>main\<close> again (failed to connect), \<open>send_command\<close> (not
  connected, sent, publish failed with a code, error while sending) and the batch (failed
  to send, user asked to stop, completed, interrupted, unexpected error, disconnected).
  \<open>PrintHeader\<close> and \<open>PrintData\<close> are the two \<open>print\<close> calls of the loop, \<open>Input\<close> is the call
  of \<open>input\<close> with its prompt, \<open>Sleep\<close> is one \<open>time.sleep(0.5)\<close>; the other events are the
  calls on the client: its creation, \<open>username_pw_set\<close>, \<open>connect\<close> with host, port and
  keepalive, \<open>loop_start\<close>, \<open>publish\<close> with topic and payload, \<open>loop_stop\<close> and
  \<open>disconnect\<close>.

  An interruption (\<open>KeyboardInterrupt\<close>) is modelled where the main thread waits on the
  outside: in \<open>client.connect\<close>, in \<open>publish\<close> and in \<open>input\<close>. The creation of the client
  and the calls \<open>loop_start\<close>, \<open>loop_stop\<close> and \<open>disconnect\<close> are taken to return.
\<close>

datatype level = DEBUG | INFO | WARNING | ERROR

datatype message =
    MsgLoaded
  | MsgFileNotFound
  | MsgInvalidJSON
  | MsgLoadError
  | MsgNoCommands
  | MsgFound nat
  | MsgConnecting string int
  | MsgConnectTimeout
  | MsgConnectionError py_exception
  | MsgFailedToConnect
  | MsgNotConnected
  | MsgSent string string
  | MsgPublishFailed string int
  | MsgSendError string py_exception
  | MsgFailedToSend string
  | MsgUserStop
  | MsgCompleted
  | MsgInterrupted
  | MsgUnexpected py_exception
  | MsgDisconnected

datatype event =
    Log level message
  | PrintHeader nat nat string
  | PrintData string
  | ClientCreate
  | UsernamePwSet string string
  | ClientConnect string int int
  | LoopStart
  | Sleep
  | Publish string string
  | Input string
  | LoopStop
  | ClientDisconnect

record world =
  trace :: "event list"
  looks :: nat
  publishes :: nat
  prompts :: nat

definition emit :: "event \<Rightarrow> world \<Rightarrow> world" where
  "emit e w = w\<lparr>trace := trace w @ [e]\<rparr>"

definition initial_world :: world where
  "initial_world = \<lparr>trace = [], looks = 0, publishes = 0, prompts = 0\<rparr>"

subsection \<open>The class ToshibaMQTTTester\<close>

datatype mqtt_client = Client

record tester =
  mqtt_host :: string
  mqtt_port :: int
  mqtt_topic :: string
  mqtt_username :: "string option"
  mqtt_password :: "string option"
  client :: "mqtt_client option"
  connected :: bool

definition ToshibaMQTTTester ::
  "string \<Rightarrow> int \<Rightarrow> string \<Rightarrow> string option \<Rightarrow> string option \<Rightarrow> tester" where
  "ToshibaMQTTTester host port tpc username password =
     \<lparr>mqtt_host = host, mqtt_port = port, mqtt_topic = tpc, mqtt_username = username,
      mqtt_password = password, client = None, connected = False\<rparr>"

text \<open>
  The callbacks run on the network thread; only their writes to \<open>self.connected\<close> reach the
  main thread (their log records are the network thread's and are not in the trace).
\<close>

definition on_connect :: "int \<Rightarrow> tester \<Rightarrow> tester" where
  "on_connect rc self = (if rc = 0 then self\<lparr>connected := True\<rparr> else self)"

definition on_disconnect :: "int \<Rightarrow> tester \<Rightarrow> tester" where
  "on_disconnect rc self = self\<lparr>connected := False\<rparr>"

definition on_publish :: "int \<Rightarrow> tester \<Rightarrow> tester" where
  "on_publish mid self = self"

fun run_callback :: "callback \<Rightarrow> tester \<Rightarrow> tester" where
  "run_callback (OnConnect rc) self = on_connect rc self"
| "run_callback (OnDisconnect rc) self = on_disconnect rc self"
| "run_callback (OnPublish mid) self = on_publish mid self"

text \<open>One look at \<open>self.connected\<close>, after the callbacks delivered since the last look.\<close>

definition read_connected :: "env \<Rightarrow> tester \<Rightarrow> world \<Rightarrow> bool \<times> tester \<times> world" where
  "read_connected env self w =
     (let self' = fold run_callback (callbacks env (looks w)) self
      in (connected self', self', w\<lparr>looks := looks w + 1\<rparr>))"

text \<open>
  The waiting loop of \<open>connect\<close>. The source counts \<open>timeout\<close> down from 10 in steps of
  0.5, all of them exact binary fractions; here \<open>timeout\<close> counts the half units, from 20.
  The condition reads the flag first and the counter second.
\<close>

fun wait_for_connection :: "env \<Rightarrow> nat \<Rightarrow> tester \<Rightarrow> world \<Rightarrow> tester \<times> world" where
  "wait_for_connection env timeout self w =
     (case read_connected env self w of
        (c, self', w') \<Rightarrow>
          if \<not> c \<and> timeout > 0
          then wait_for_connection env (timeout - 1) self' (emit Sleep w')
          else (self', w'))"

declare wait_for_connection.simps [simp del]

definition truthy_str :: "string option \<Rightarrow> bool" where
  "truthy_str s = (case s of None \<Rightarrow> False | Some v \<Rightarrow> v \<noteq> [])"

text \<open>
  \<open>connect\<close>. Everything from the creation of the client to the last look is inside the
  \<open>try\<close>; an exception of \<open>client.connect\<close> that is an \<open>Exception\<close> is logged and gives
  \<open>False\<close>, any other leaves the method.
\<close>

definition connect :: "env \<Rightarrow> tester \<Rightarrow> world \<Rightarrow> (py_exception + bool) \<times> tester \<times> world" where
  "connect env self w =
     (let self1 = self\<lparr>client := Some Client\<rparr>;
          w1 = emit ClientCreate w;
          w2 = (if truthy_str (mqtt_username self1) \<and> truthy_str (mqtt_password self1)
                then emit (UsernamePwSet (the (mqtt_username self1)) (the (mqtt_password self1))) w1
                else w1);
          w3 = emit (Log INFO (MsgConnecting (mqtt_host self1) (mqtt_port self1))) w2;
          w4 = emit (ClientConnect (mqtt_host self1) (mqtt_port self1) 60) w3
      in case connect_raises env of
           Some e \<Rightarrow>
             if isinstance_Exception e
             then (Inr False, self1, emit (Log ERROR (MsgConnectionError e)) w4)
             else (Inl e, self1, w4)
         | None \<Rightarrow>
             (case wait_for_connection env 20 self1 (emit LoopStart w4) of
                (self2, w5) \<Rightarrow>
                  (case read_connected env self2 w5 of
                     (c, self3, w6) \<Rightarrow>
                       if \<not> c then (Inr False, self3, emit (Log ERROR MsgConnectTimeout) w6)
                       else (Inr True, self3, w6))))"

definition MQTT_ERR_SUCCESS :: int where
  "MQTT_ERR_SUCCESS = 0"

text \<open>\<open>self.client.publish(topic, payload)\<close>; on a missing client the attribute access raises.\<close>

definition client_publish ::
  "env \<Rightarrow> tester \<Rightarrow> string \<Rightarrow> string \<Rightarrow> world \<Rightarrow> (py_exception + int) \<times> world" where
  "client_publish env self tpc pl w =
     (case client self of
        None \<Rightarrow> (Inl (AttributeError ''publish''), w)
      | Some _ \<Rightarrow>
          (let w' = (emit (Publish tpc pl) w)\<lparr>publishes := publishes w + 1\<rparr>
           in case publish_result env (publishes w) of
                PublishRaises e \<Rightarrow> (Inl e, w')
              | PublishRc rc \<Rightarrow> (Inr rc, w')))"

definition send_command ::
  "env \<Rightarrow> string \<Rightarrow> string \<Rightarrow> tester \<Rightarrow> world \<Rightarrow> (py_exception + bool) \<times> tester \<times> world" where
  "send_command env command_name command_data self w =
     (case read_connected env self w of
        (c, self', w1) \<Rightarrow>
          if \<not> c then (Inr False, self', emit (Log ERROR MsgNotConnected) w1)
          else
            (case client_publish env self' (mqtt_topic self')
                    (json_dumps_dict1 ''ir_code_to_send'' command_data) w1 of
               (Inr rc, w2) \<Rightarrow>
                 if rc = MQTT_ERR_SUCCESS
                 then (Inr True, self', emit (Log INFO (MsgSent command_name (mqtt_topic self'))) w2)
                 else (Inr False, self', emit (Log ERROR (MsgPublishFailed command_name rc)) w2)
             | (Inl e, w2) \<Rightarrow>
                 if isinstance_Exception e
                 then (Inr False, self', emit (Log ERROR (MsgSendError command_name e)) w2)
                 else (Inl e, self', w2)))"

definition disconnect :: "tester \<Rightarrow> world \<Rightarrow> world" where
  "disconnect self w =
     (case client self of
        None \<Rightarrow> w
      | Some _ \<Rightarrow> emit ClientDisconnect (emit LoopStop w))"

subsection \<open>Loading, the operator prompt and main\<close>

datatype outcome = Returned | SysExit int | Uncaught py_exception

text \<open>
  How the process ends: \<open>main\<close> returns (exit status 0), \<open>sys.exit(n)\<close> is called (exit
  status \<open>n\<close>), or an exception leaves \<open>main\<close> (the interpreter reports it and the status
  is not 0).
\<close>

definition load_toshiba_commands :: "env \<Rightarrow> world \<Rightarrow> (outcome + json) \<times> world" where
  "load_toshiba_commands env w =
     (case load_result env of
        Inr d \<Rightarrow> (Inr d, emit (Log INFO MsgLoaded) w)
      | Inl FileNotFoundError \<Rightarrow> (Inl (SysExit 1), emit (Log ERROR MsgFileNotFound) w)
      | Inl JSONDecodeError \<Rightarrow> (Inl (SysExit 1), emit (Log ERROR MsgInvalidJSON) w)
      | Inl e \<Rightarrow>
          if isinstance_Exception e then (Inl (SysExit 1), emit (Log ERROR MsgLoadError) w)
          else (Inl (Uncaught e), w))"

text \<open>\<open>d.get(key, default)\<close>; only a dictionary has the method.\<close>

definition dict_get :: "json \<Rightarrow> string \<Rightarrow> json \<Rightarrow> py_exception + json" where
  "dict_get d key dflt =
     (case d of
        JDict items \<Rightarrow> Inr (case map_of items key of Some v \<Rightarrow> v | None \<Rightarrow> dflt)
      | _ \<Rightarrow> Inl (AttributeError ''get''))"

text \<open>The truth value Python gives a parsed JSON value (\<open>if not commands\<close>).\<close>

fun truthy :: "json \<Rightarrow> bool" where
  "truthy JNull = False"
| "truthy (JBool b) = b"
| "truthy (JInt n) = (n \<noteq> 0)"
| "truthy (JFloat (Finite m e)) = (m \<noteq> 0)"
| "truthy (JFloat f) = True"
| "truthy (JStr s) = (s \<noteq> [])"
| "truthy (JList xs) = (xs \<noteq> [])"
| "truthy (JDict items) = (items \<noteq> [])"

text \<open>\<open>str.strip\<close> and \<open>str.lower\<close>, for code points below 256.\<close>

definition py_isspace :: "char \<Rightarrow> bool" where
  "py_isspace c =
     (let n = (of_char c :: nat)
      in (9 \<le> n \<and> n \<le> 13) \<or> (28 \<le> n \<and> n \<le> 32) \<or> n = 0x85 \<or> n = 0xA0)"

definition py_strip :: "string \<Rightarrow> string" where
  "py_strip s = rev (dropWhile py_isspace (rev (dropWhile py_isspace s)))"

definition py_lower_char :: "char \<Rightarrow> char" where
  "py_lower_char c =
     (let n = (of_char c :: nat)
      in if (0x41 \<le> n \<and> n \<le> 0x5A) \<or> (0xC0 \<le> n \<and> n \<le> 0xDE \<and> n \<noteq> 0xD7)
         then char_of (n + 32) else c)"

definition py_lower :: "string \<Rightarrow> string" where
  "py_lower s = map py_lower_char s"

definition prompt_text :: string where
  "prompt_text = ''Press Enter to continue or '' @ [CHR 0x27] @ ''q'' @ [CHR 0x27] @ '' to quit: ''"

definition get_user_confirmation :: "env \<Rightarrow> world \<Rightarrow> (py_exception + bool) \<times> world" where
  "get_user_confirmation env w =
     (let w' = (emit (Input prompt_text) w)\<lparr>prompts := prompts w + 1\<rparr>
      in case input_result env (prompts w) of
           InputRaises e \<Rightarrow> (Inl e, w')
         | Line response \<Rightarrow> (Inr (py_lower (py_strip response) \<noteq> ''q''), w'))"

text \<open>
  The \<open>for\<close> loop of \<open>main\<close> over \<open>enumerate(all_commands, 1)\<close>: \<open>i\<close> is the number of the
  command at the head of the list, \<open>n\<close> is \<open>len(all_commands)\<close>. The result is \<open>Inl e\<close> when
  the exception \<open>e\<close> leaves the loop, and \<open>Inr ()\<close> when the loop ends or is broken.
\<close>

fun run_commands ::
  "env \<Rightarrow> nat \<Rightarrow> nat \<Rightarrow> (string \<times> string) list \<Rightarrow> tester \<Rightarrow> world
     \<Rightarrow> (py_exception + unit) \<times> tester \<times> world" where
  "run_commands env i n [] self w = (Inr (), self, w)"
| "run_commands env i n ((command_name, command_data) # rest) self w =
     (let w1 = emit (PrintData (take 50 command_data
                                  @ (if length command_data > 50 then ''...'' else [])))
                 (emit (PrintHeader i n command_name) w)
      in case send_command env command_name command_data self w1 of
           (Inl e, self', w2) \<Rightarrow> (Inl e, self', w2)
         | (Inr success, self', w2) \<Rightarrow>
             (let w3 = (if \<not> success then emit (Log WARNING (MsgFailedToSend command_name)) w2
                        else w2)
              in if i < n
                 then (case get_user_confirmation env w3 of
                         (Inl e, w4) \<Rightarrow> (Inl e, self', w4)
                       | (Inr go_on, w4) \<Rightarrow>
                           if \<not> go_on then (Inr (), self', emit (Log INFO MsgUserStop) w4)
                           else run_commands env (i + 1) n rest self' w4)
                 else run_commands env (i + 1) n rest self' w3))"

text \<open>
  \<open>main\<close> from the loading of the commands on; the host, port, topic and credentials that
  the first part of \<open>main\<close> reads from the process environment are its parameters.
  \<open>prepare\<close> is the part before the \<open>try\<close> statement: it ends the process, or hands the
  flattened commands and the connected tester to \<open>session\<close>, the \<open>try\<close> statement with its
  handlers and its \<open>finally\<close> clause.
\<close>

record config =
  cfg_host :: string
  cfg_port :: int
  cfg_topic :: string
  cfg_username :: "string option"
  cfg_password :: "string option"

definition prepare ::
  "env \<Rightarrow> config \<Rightarrow> (outcome + (string \<times> string) list \<times> tester) \<times> world" where
  "prepare env cfg =
     (case load_toshiba_commands env initial_world of
        (Inl out, w) \<Rightarrow> (Inl out, w)
      | (Inr device_data, w) \<Rightarrow>
          (case dict_get device_data ''commands'' (JDict []) of
             Inl e \<Rightarrow> (Inl (Uncaught e), w)
           | Inr commands \<Rightarrow>
               if \<not> truthy commands then (Inl (SysExit 1), emit (Log ERROR MsgNoCommands) w)
               else
                 (let all_commands = extract_all_commands commands;
                      w1 = emit (Log INFO (MsgFound (length all_commands))) w;
                      mqtt_client = ToshibaMQTTTester (cfg_host cfg) (cfg_port cfg) (cfg_topic cfg)
                                      (cfg_username cfg) (cfg_password cfg)
                  in case connect env mqtt_client w1 of
                       (Inl e, self, w2) \<Rightarrow> (Inl (Uncaught e), w2)
                     | (Inr ok, self, w2) \<Rightarrow>
                         if \<not> ok then (Inl (SysExit 1), emit (Log ERROR MsgFailedToConnect) w2)
                         else (Inr (all_commands, self), w2))))"

text \<open>
  Every exception of the model is a \<open>KeyboardInterrupt\<close> or an \<open>Exception\<close>, so one of the
  two handlers takes it; the \<open>finally\<close> clause runs in every case.
\<close>

definition session :: "env \<Rightarrow> (string \<times> string) list \<Rightarrow> tester \<Rightarrow> world \<Rightarrow> world" where
  "session env all_commands mqtt_client w =
     (case run_commands env 1 (length all_commands) all_commands mqtt_client w of
        (r, self, w1) \<Rightarrow>
          (let w2 = (case r of
                       Inr _ \<Rightarrow> emit (Log INFO MsgCompleted) w1
                     | Inl e \<Rightarrow>
                         if e = KeyboardInterrupt then emit (Log INFO MsgInterrupted) w1
                         else emit (Log ERROR (MsgUnexpected e)) w1)
           in emit (Log INFO MsgDisconnected) (disconnect self w2)))"

definition main :: "env \<Rightarrow> config \<Rightarrow> outcome \<times> world" where
  "main env cfg =
     (case prepare env cfg of
        (Inl out, w) \<Rightarrow> (out, w)
      | (Inr (all_commands, mqtt_client), w) \<Rightarrow> (Returned, session env all_commands mqtt_client w))"

section \<open>Notions of the specification\<close>

subsection \<open>Command tables and their leaves\<close>

text \<open>
  A command table is a tree whose leaves are payload strings and whose inner nodes are
  mappings; \<open>to_json\<close> is the parsed JSON it stands for. \<open>leaf_paths\<close> lists the leaves
  in pre-order, siblings in the order of the mapping, each with the keys on the way from
  the root; \<open>count_leaves\<close> counts them; \<open>dot_join\<close> is \<open>".".join(keys)\<close>.
\<close>

datatype command_table = Leaf string | Node "(string \<times> command_table) list"

fun to_json :: "command_table \<Rightarrow> json"
  and to_json_items :: "(string \<times> command_table) list \<Rightarrow> (string \<times> json) list" where
  "to_json (Leaf s) = JStr s"
| "to_json (Node kvs) = JDict (to_json_items kvs)"
| "to_json_items [] = []"
| "to_json_items ((k, t) # kvs) = (k, to_json t) # to_json_items kvs"

fun leaf_paths :: "command_table \<Rightarrow> (string list \<times> string) list"
  and leaf_paths_items :: "(string \<times> command_table) list \<Rightarrow> (string list \<times> string) list" where
  "leaf_paths (Leaf s) = [([], s)]"
| "leaf_paths (Node kvs) = leaf_paths_items kvs"
| "leaf_paths_items [] = []"
| "leaf_paths_items ((k, t) # kvs) =
     map (\<lambda>(ks, s). (k # ks, s)) (leaf_paths t) @ leaf_paths_items kvs"

fun count_leaves :: "command_table \<Rightarrow> nat"
  and count_leaves_items :: "(string \<times> command_table) list \<Rightarrow> nat" where
  "count_leaves (Leaf s) = 1"
| "count_leaves (Node kvs) = count_leaves_items kvs"
| "count_leaves_items [] = 0"
| "count_leaves_items ((k, t) # kvs) = count_leaves t + count_leaves_items kvs"

fun dot_join :: "string list \<Rightarrow> string" where
  "dot_join [] = []"
| "dot_join [k] = k"
| "dot_join (k # ks) = k @ ''.'' @ dot_join ks"

text \<open>The two \<open>isinstance\<close> tests of the flattening, as predicates on a value.\<close>

fun isinstance_str :: "json \<Rightarrow> bool" where
  "isinstance_str (JStr s) = True"
| "isinstance_str v = False"

fun isinstance_dict :: "json \<Rightarrow> bool" where
  "isinstance_dict (JDict items) = True"
| "isinstance_dict v = False"

subsection \<open>Reading a trace\<close>

fun is_teardown :: "event \<Rightarrow> bool" where
  "is_teardown LoopStop = True"
| "is_teardown ClientDisconnect = True"
| "is_teardown e = False"

fun is_publish :: "event \<Rightarrow> bool" where
  "is_publish (Publish tpc pl) = True"
| "is_publish e = False"

text \<open>
  What one call of \<open>send_command\<close> can come to when no interruption arrives: the tester
  is not connected, the publish call returns a code, or it raises an exception.
\<close>

datatype send_outcome = NotConnected | Published int | PublishRaised py_exception

fun send_events :: "string \<Rightarrow> string \<Rightarrow> string \<Rightarrow> send_outcome \<Rightarrow> event list" where
  "send_events tpc name cmd NotConnected = [Log ERROR MsgNotConnected]"
| "send_events tpc name cmd (Published rc) =
     [Publish tpc (json_dumps_dict1 ''ir_code_to_send'' cmd),
      if rc = 0 then Log INFO (MsgSent name tpc) else Log ERROR (MsgPublishFailed name rc)]"
| "send_events tpc name cmd (PublishRaised e) =
     [Publish tpc (json_dumps_dict1 ''ir_code_to_send'' cmd), Log ERROR (MsgSendError name e)]"

definition send_failed :: "send_outcome \<Rightarrow> bool" where
  "send_failed out = (out \<noteq> Published 0)"

text \<open>
  The trace of a batch that no failure aborts, for the outcomes \<open>outs\<close> of its sends: for
  each command in order its two printed lines, the events of its send, a warning when the
  send failed, and a prompt unless the command is the last.
\<close>

fun paced_run ::
  "string \<Rightarrow> nat \<Rightarrow> nat \<Rightarrow> (string \<times> string) list \<Rightarrow> send_outcome list \<Rightarrow> event list" where
  "paced_run tpc i n ((name, cmd) # rest) (out # outs) =
     [PrintHeader i n name,
      PrintData (take 50 cmd @ (if length cmd > 50 then ''...'' else []))]
     @ send_events tpc name cmd out
     @ (if send_failed out then [Log WARNING (MsgFailedToSend name)] else [])
     @ (if i < n then [Input prompt_text] else [])
     @ paced_run tpc (i + 1) n rest outs"
| "paced_run tpc i n cmds outs = []"

text \<open>
  What the scripted environment makes of each send of a batch of \<open>m\<close> commands that starts
  with the tester \<open>self\<close>, at look \<open>l\<close> and publish \<open>p\<close>: a send looks at the flag once, after
  the callbacks delivered before that look; it finds the tester not connected, or makes the
  next publish call and gets what the script holds for that call.
\<close>

fun outcome_of :: "publish_outcome \<Rightarrow> send_outcome" where
  "outcome_of (PublishRc rc) = Published rc"
| "outcome_of (PublishRaises e) = PublishRaised e"

fun send_outcomes :: "env \<Rightarrow> nat \<Rightarrow> tester \<Rightarrow> nat \<Rightarrow> nat \<Rightarrow> send_outcome list" where
  "send_outcomes env 0 self l p = []"
| "send_outcomes env (Suc m) self l p =
     (let self' = fold run_callback (callbacks env l) self
      in if connected self'
         then outcome_of (publish_result env p) # send_outcomes env m self' (Suc l) (Suc p)
         else NotConnected # send_outcomes env m self' (Suc l) p)"

text \<open>An answer at the prompt that lets the batch go on, and one that stops it.\<close>

fun continues :: "input_outcome \<Rightarrow> bool" where
  "continues (Line response) = (py_lower (py_strip response) \<noteq> ''q'')"
| "continues (InputRaises e) = False"

fun quits :: "input_outcome \<Rightarrow> bool" where
  "quits (Line response) = (py_lower (py_strip response) = ''q'')"
| "quits (InputRaises e) = False"

subsection \<open>Reading the envelope back\<close>

text \<open>
  A reader for the JSON text that \<open>json_dumps_dict1\<close> writes, decoding a string literal
  the way \<open>json.loads\<close> does: the two-character escapes, \<open>\u00xx\<close> with hexadecimal digits
  of either case, no bare control character. \<open>json_scan_str\<close> reads the body of a string
  literal up to its closing quote and returns the decoded string and the text after the
  quote.
\<close>

definition hex_value :: "char \<Rightarrow> nat option" where
  "hex_value c =
     (let n = (of_char c :: nat)
      in if 0x30 \<le> n \<and> n \<le> 0x39 then Some (n - 0x30)
         else if 0x61 \<le> n \<and> n \<le> 0x66 then Some (n - 0x61 + 10)
         else if 0x41 \<le> n \<and> n \<le> 0x46 then Some (n - 0x41 + 10)
         else None)"

definition simple_escape :: "char \<Rightarrow> char option" where
  "simple_escape e =
     (if e = CHR 0x22 then Some (CHR 0x22)
      else if e = CHR 0x5C then Some (CHR 0x5C)
      else if e = CHR ''/'' then Some (CHR ''/'')
      else if e = CHR ''b'' then Some (CHR 0x08)
      else if e = CHR ''f'' then Some (CHR 0x0C)
      else if e = CHR ''n'' then Some (CHR 0x0A)
      else if e = CHR ''r'' then Some (CHR 0x0D)
      else if e = CHR ''t'' then Some (CHR 0x09)
      else None)"

definition cons_decoded :: "char \<Rightarrow> (string \<times> string) option \<Rightarrow> (string \<times> string) option" where
  "cons_decoded c r = (case r of None \<Rightarrow> None | Some (s, rest) \<Rightarrow> Some (c # s, rest))"

fun json_scan_str :: "string \<Rightarrow> (string \<times> string) option" where
  "json_scan_str [] = None"
| "json_scan_str (c # cs) =
     (if c = CHR 0x22 then Some ([], cs)
      else if c = CHR 0x5C then
        (case cs of
           [] \<Rightarrow> None
         | e # cs' \<Rightarrow>
             if e = CHR ''u'' then
               (case cs' of
                  h1 # h2 # h3 # h4 # cs'' \<Rightarrow>
                    (case (hex_value h1, hex_value h2, hex_value h3, hex_value h4) of
                       (Some a, Some b, Some c', Some d) \<Rightarrow>
                         if a = 0 \<and> b = 0 then cons_decoded (char_of (c' * 16 + d)) (json_scan_str cs'')
                         else None
                     | _ \<Rightarrow> None)
                | _ \<Rightarrow> None)
             else
               (case simple_escape e of
                  None \<Rightarrow> None
                | Some x \<Rightarrow> cons_decoded x (json_scan_str cs')))
      else if (of_char c :: nat) < 0x20 then None
      else cons_decoded c (json_scan_str cs))"

definition json_loads_dict1 :: "string \<Rightarrow> (string \<times> string) option" where
  "json_loads_dict1 s =
     (case s of
        c1 # c2 # cs \<Rightarrow>
          if c1 = CHR ''{'' \<and> c2 = CHR 0x22 then
            (case json_scan_str cs of
               None \<Rightarrow> None
             | Some (k, r1) \<Rightarrow>
                 (case r1 of
                    c3 # c4 # c5 # r2 \<Rightarrow>
                      if c3 = CHR '':'' \<and> c4 = CHR '' '' \<and> c5 = CHR 0x22 then
                        (case json_scan_str r2 of
                           None \<Rightarrow> None
                         | Some (v, r3) \<Rightarrow> if r3 = ''}'' then Some (k, v) else None)
                      else None
                  | _ \<Rightarrow> None))
          else None
      | _ \<Rightarrow> None)"

subsection \<open>Example inputs\<close>

definition example_hass :: hass where
  "example_hass = \<lparr>service_calls = []\<rparr>"

definition example_config :: config where
  "example_config =
     \<lparr>cfg_host = ''localhost'', cfg_port = 1883, cfg_topic = ''smartir/send_command'',
      cfg_username = None, cfg_password = None\<rparr>"

text \<open>
  The table \<open>{"a": {"b": "X1", "c": "X2"}}\<close>, as a command table and as the parsed value
  of the key \<open>commands\<close> of a device file.
\<close>

definition example_table :: command_table where
  "example_table = Node [(''a'', Node [(''b'', Leaf ''X1''), (''c'', Leaf ''X2'')])]"

definition example_commands :: json where
  "example_commands = JDict [(''a'', JDict [(''b'', JStr ''X1''), (''c'', JStr ''X2'')])]"

definition example_device_data :: json where
  "example_device_data = JDict [(''commands'', example_commands)]"

text \<open>
  A broker that accepts the connection before the third look, whose first publish fails
  with code 4, and an operator who presses Enter.
\<close>

definition example_env :: env where
  "example_env =
     \<lparr>load_result = Inr example_device_data, connect_raises = None,
      callbacks = (\<lambda>k. if k = 2 then [OnConnect 0] else []),
      publish_result = (\<lambda>k. if k = 0 then PublishRc 4 else PublishRc 0),
      input_result = (\<lambda>k. Line [])\<rparr>"

text \<open>The same with an operator who answers \<open>q\<close>, and with a broker that never answers.\<close>

definition quitting_env :: env where
  "quitting_env = example_env\<lparr>input_result := (\<lambda>k. Line ''q'')\<rparr>"

definition silent_env :: env where
  "silent_env = example_env\<lparr>callbacks := (\<lambda>k. [])\<rparr>"

text \<open>
  A broker whose connection drops after the first send, and one whose connection is
  accepted and lost again before the main thread looks at the flag for the first time.
\<close>

definition drop_env :: env where
  "drop_env =
     example_env\<lparr>callbacks := (\<lambda>k. if k = 2 then [OnConnect 0]
                                       else if k = 5 then [OnDisconnect 1] else [])\<rparr>"

definition flap_env :: env where
  "flap_env =
     example_env\<lparr>callbacks := (\<lambda>k. if k = 0 then [OnConnect 0, OnDisconnect 1] else [])\<rparr>"

text \<open>An operator who presses Ctrl-C at the prompt, and a closed standard input.\<close>

definition interrupting_env :: env where
  "interrupting_env = example_env\<lparr>input_result := (\<lambda>k. InputRaises KeyboardInterrupt)\<rparr>"

definition closed_stdin_env :: env where
  "closed_stdin_env = example_env\<lparr>input_result := (\<lambda>k. InputRaises EOFError)\<rparr>"

text \<open>Device files whose \<open>commands\<close> are \<open>{}\<close> and \<open>{"a": {}}\<close>.\<close>

definition empty_env :: env where
  "empty_env = example_env\<lparr>load_result := Inr (JDict [(''commands'', JDict [])])\<rparr>"

definition hollow_env :: env where
  "hollow_env = example_env\<lparr>load_result := Inr (JDict [(''commands'', JDict [(''a'', JDict [])])])\<rparr>"

section \<open>Properties of the controller registry\<close>

lemma supported_encodings_raw_only:
  "set MQTT_COMMANDS_ENCODING = {''Raw''}" "set UFOR11_COMMANDS_ENCODING = {''Raw''}"
  by (simp_all add: MQTT_COMMANDS_ENCODING_def UFOR11_COMMANDS_ENCODING_def ENC_RAW_def)

lemma check_encoding_unsupported:
  assumes "encoding \<noteq> ''Raw''"
  shows "check_encoding MQTTController encoding =
           Inl (Exception ''The encoding is not supported by the mqtt controller.'')"
    and "check_encoding UFOR11Controller encoding =
           Inl (Exception ''The encoding is not supported by the UFO-R11 controller.'')"
  using assms by (simp_all add: check_encoding_def supported_encodings_raw_only)

lemma check_encoding_raw: "check_encoding c ''Raw'' = Inr ()"
  by (cases c) (simp_all add: check_encoding_def supported_encodings_raw_only)

lemma get_controller_raw:
  "get_controller controller ''Raw'' controller_data delay h =
     (Inr \<lparr>cls = UFOR11Controller, ctl_controller = controller, ctl_encoding = ''Raw'',
           ctl_controller_data = controller_data, ctl_delay = delay\<rparr>, h)"
  by (simp add: get_controller_def new_controller_def check_encoding_raw)

text \<open>
  Claim C3. An encoding other than \<open>Raw\<close> is in the supported set of neither class.
  Constructing the generic MQTT controller or the UFO-R11 controller with it, directly or
  through \<open>get_controller\<close>, raises the "encoding is not supported" exception of that
  class; no controller is returned and the platform state comes back as it went in: no
  service call has been made.
\<close>

theorem unsupported_encoding_rejected:
  "encoding \<noteq> ''Raw'' \<Longrightarrow>
     new_controller MQTTController controller encoding controller_data delay h =
       (Inl (Exception ''The encoding is not supported by the mqtt controller.''), h)
     \<and> new_controller UFOR11Controller controller encoding controller_data delay h =
       (Inl (Exception ''The encoding is not supported by the UFO-R11 controller.''), h)
     \<and> get_controller controller encoding controller_data delay h =
       (Inl (Exception ''The encoding is not supported by the UFO-R11 controller.''), h)"
  by (simp add: get_controller_def new_controller_def check_encoding_unsupported)

text \<open>The statement at the encoding \<open>Hex\<close>.\<close>

theorem unsupported_encoding_rejected_witness:
  "ENC_HEX \<noteq> ''Raw''
   \<and> new_controller MQTTController UFOR11_CONTROLLER ENC_HEX ''ir/topic'' (0::int) example_hass =
       (Inl (Exception ''The encoding is not supported by the mqtt controller.''), example_hass)
   \<and> new_controller UFOR11Controller UFOR11_CONTROLLER ENC_HEX ''ir/topic'' (0::int) example_hass =
       (Inl (Exception ''The encoding is not supported by the UFO-R11 controller.''), example_hass)
   \<and> get_controller UFOR11_CONTROLLER ENC_HEX ''ir/topic'' (0::int) example_hass =
       (Inl (Exception ''The encoding is not supported by the UFO-R11 controller.''), example_hass)"
proof -
  have hex: "ENC_HEX \<noteq> ''Raw''"
    by (simp add: ENC_HEX_def)
  from unsupported_encoding_rejected [OF hex, of UFOR11_CONTROLLER "''ir/topic''" "0::int" example_hass]
    hex show ?thesis
    by simp
qed

subsection \<open>The envelope can be read back\<close>

lemma hex_value_table:
  "list_all (\<lambda>m. hex_value (hex_digit m) = Some m) [0..<16]"
  by code_simp

lemma hex_value_hex_digit: "hex_value (hex_digit n) = Some (n mod 16)"
proof -
  have "n mod 16 \<in> set [0..<16]" by simp
  with hex_value_table have "hex_value (hex_digit (n mod 16)) = Some (n mod 16)"
    unfolding list_all_iff by blast
  then show ?thesis
    by (simp add: hex_digit_def)
qed

lemma hex_value_zero: "hex_value (CHR ''0'') = Some 0"
  by (simp add: hex_value_def)

lemma char_of_hex: "char_of ((of_char c :: nat) div 16 mod 16 * 16 + of_char c mod 16) = c"
proof -
  have "(of_char c :: nat) < 16 * 16" by simp
  then have "(of_char c :: nat) div 16 < 16"
    by (rule less_mult_imp_div_less)
  then have "(of_char c :: nat) div 16 mod 16 = of_char c div 16"
    by simp
  then show ?thesis by simp
qed

lemma json_scan_escape:
  "json_scan_str (json_escape_char c @ cs) = cons_decoded c (json_scan_str cs)"
  by (simp add: json_escape_char_def simple_escape_def hex_value_hex_digit hex_value_zero
      char_of_hex not_less)

lemma json_scan_body:
  "json_scan_str (concat (map json_escape_char s) @ CHR 0x22 # cs) = Some (s, cs)"
  by (induction s) (simp_all add: json_scan_escape cons_decoded_def)

lemma envelope_roundtrip: "json_loads_dict1 (json_dumps_dict1 k v) = Some (k, v)"
proof -
  have "json_dumps_dict1 k v =
      CHR ''{'' # CHR 0x22 # concat (map json_escape_char k) @ CHR 0x22 # CHR '':'' # CHR '' ''
        # CHR 0x22 # concat (map json_escape_char v) @ CHR 0x22 # ''}''"
    by (simp add: json_dumps_dict1_def json_dumps_str_def)
  then show ?thesis
    by (simp add: json_loads_dict1_def json_scan_body)
qed

text \<open>
  Claim C4. For every command string \<open>p\<close>, \<open>send\<close> of a generic MQTT controller adds
  exactly one call of the service \<open>mqtt.publish\<close> whose payload is \<open>p\<close> itself and whose
  topic is the controller's \<open>controller_data\<close>; \<open>send\<close> of a UFO-R11 controller adds exactly
  one such call, to the same topic, whose payload is the JSON text of the dictionary with
  the single key \<open>ir_code_to_send\<close> and the value \<open>p\<close>; read back, that text gives the key
  and \<open>p\<close> again.
\<close>

theorem send_publishes_once:
  "send (self\<lparr>cls := MQTTController\<rparr>) p h =
     h\<lparr>service_calls := service_calls h @
        [\<lparr>domain = ''mqtt'', service = ''publish'',
          data = \<lparr>topic = ctl_controller_data self, payload = p\<rparr>\<rparr>]\<rparr>
   \<and> send (self\<lparr>cls := UFOR11Controller\<rparr>) p h =
     h\<lparr>service_calls := service_calls h @
        [\<lparr>domain = ''mqtt'', service = ''publish'',
          data = \<lparr>topic = ctl_controller_data self,
                  payload = json_dumps_dict1 ''ir_code_to_send'' p\<rparr>\<rparr>]\<rparr>
   \<and> length (service_calls (send self p h)) = length (service_calls h) + 1
   \<and> json_loads_dict1 (json_dumps_dict1 ''ir_code_to_send'' p) = Some (''ir_code_to_send'', p)"
  by (cases "cls self") (simp_all add: send_def async_call_def envelope_roundtrip)

text \<open>The envelope of the command \<open>AABB\<close>, character by character.\<close>

lemma json_dumps_AABB:
  "json_dumps_dict1 ''ir_code_to_send'' ''AABB'' =
     ''{'' @ [CHR 0x22] @ ''ir_code_to_send'' @ [CHR 0x22] @ '': '' @ [CHR 0x22] @ ''AABB'' @ [CHR 0x22] @ ''}''"
  by (simp add: json_dumps_dict1_def json_dumps_str_def json_escape_char_def)

text \<open>
  Claim C1 asks that each declared kind resolve to the variant of that kind, and that
  MQTT and UFOR11 do not end on the same send behaviour. The code at the kind \<open>MQTT\<close> with
  the encoding \<open>Raw\<close>: the registry dictionary maps the kind to \<open>MQTTController\<close>, yet
  \<open>get_controller\<close> returns a \<open>UFOR11Controller\<close>, whose \<open>send\<close> of \<open>AABB\<close> publishes the
  envelope where the generic controller publishes \<open>AABB\<close>.
\<close>

theorem get_controller_mqtt_resolves_to_ufor11:
  "get_controller MQTT_CONTROLLER ENC_RAW ''ir/topic'' (0::int) example_hass =
     (Inr \<lparr>cls = UFOR11Controller, ctl_controller = ''MQTT'', ctl_encoding = ''Raw'',
           ctl_controller_data = ''ir/topic'', ctl_delay = 0\<rparr>, example_hass)
   \<and> map_of controllers MQTT_CONTROLLER = Some MQTTController
   \<and> service_calls
       (send \<lparr>cls = UFOR11Controller, ctl_controller = ''MQTT'', ctl_encoding = ''Raw'',
              ctl_controller_data = ''ir/topic'', ctl_delay = 0::int\<rparr> ''AABB'' example_hass) =
       [\<lparr>domain = ''mqtt'', service = ''publish'',
         data = \<lparr>topic = ''ir/topic'',
                 payload = ''{'' @ [CHR 0x22] @ ''ir_code_to_send'' @ [CHR 0x22] @ '': ''
                           @ [CHR 0x22] @ ''AABB'' @ [CHR 0x22] @ ''}''\<rparr>\<rparr>]
   \<and> service_calls
       (send \<lparr>cls = MQTTController, ctl_controller = ''MQTT'', ctl_encoding = ''Raw'',
              ctl_controller_data = ''ir/topic'', ctl_delay = 0::int\<rparr> ''AABB'' example_hass) =
       [\<lparr>domain = ''mqtt'', service = ''publish'',
         data = \<lparr>topic = ''ir/topic'', payload = ''AABB''\<rparr>\<rparr>]"
  by (simp add: get_controller_raw ENC_RAW_def MQTT_CONTROLLER_def
      controllers_def send_def async_call_def example_hass_def json_dumps_AABB)

text \<open>
  Claim C2 asks that a kind outside the registry fail with the "controller is not
  supported" error. The code at the kind \<open>Broadlink\<close>, which the registry dictionary does
  not hold: \<open>get_controller\<close> raises nothing and returns a \<open>UFOR11Controller\<close>.
\<close>

theorem get_controller_accepts_unknown_kind:
  "get_controller ''Broadlink'' ENC_RAW ''ir/topic'' (0::int) example_hass =
     (Inr \<lparr>cls = UFOR11Controller, ctl_controller = ''Broadlink'', ctl_encoding = ''Raw'',
           ctl_controller_data = ''ir/topic'', ctl_delay = 0\<rparr>, example_hass)
   \<and> map_of controllers ''Broadlink'' = None"
  by (simp add: get_controller_raw ENC_RAW_def controllers_def MQTT_CONTROLLER_def UFOR11_CONTROLLER_def)

section \<open>Properties of the flattening\<close>

lemma length_leaf_paths:
  "length (leaf_paths t) = count_leaves t"
  "length (leaf_paths_items kvs) = count_leaves_items kvs"
  by (induction t and kvs rule: leaf_paths_leaf_paths_items.induct) simp_all

lemma extract_items_table:
  "extract_items ((k, to_json t) # rest) path acc =
     extract_items rest path
       (acc @ map (\<lambda>(ks, s). (foldl current_path (current_path path k) ks, s)) (leaf_paths t))"
  "extract_items (to_json_items kvs) path acc =
     acc @ map (\<lambda>(ks, s). (foldl current_path path ks, s)) (leaf_paths_items kvs)"
  by (induction t and kvs arbitrary: k rest path acc and path acc rule: leaf_paths_leaf_paths_items.induct)
     (simp_all add: case_prod_unfold comp_def)

lemma foldl_current_path_nonempty:
  "p \<noteq> [] \<Longrightarrow> foldl current_path p ks = p @ concat (map ((@) ''.'') ks)"
  by (induction ks arbitrary: p) (simp_all add: current_path_def)

lemma dot_join_Cons: "dot_join (k # ks) = k @ concat (map ((@) ''.'') ks)"
  by (induction ks arbitrary: k) simp_all

lemma foldl_current_path_empty:
  "foldl current_path [] ks = dot_join (dropWhile (\<lambda>k. k = []) ks)"
proof (induction ks)
  case Nil
  show ?case by simp
next
  case (Cons k ks)
  show ?case
  proof (cases "k = []")
    case True
    then have "current_path [] k = []"
      by (simp add: current_path_def)
    with True Cons show ?thesis by simp
  next
    case False
    have "current_path [] k = k"
      by (simp add: current_path_def)
    with False show ?thesis
      by (simp add: foldl_current_path_nonempty dot_join_Cons)
  qed
qed

lemma extract_all_commands_table:
  "extract_all_commands (to_json (Node kvs)) =
     map (\<lambda>(ks, s). (dot_join (dropWhile (\<lambda>k. k = []) ks), s)) (leaf_paths (Node kvs))"
  by (simp add: extract_all_commands_def extract_items_table foldl_current_path_empty)

lemma leaf_paths_items_first_key:
  "(ks, s) \<in> set (leaf_paths_items kvs) \<Longrightarrow> ks \<noteq> [] \<and> hd ks \<in> fst ` set kvs"
  by (induction kvs) (auto simp: image_iff)

lemma dropWhile_empty_keys:
  assumes "[] \<notin> fst ` set kvs" "(ks, s) \<in> set (leaf_paths_items kvs)"
  shows "dropWhile (\<lambda>k. k = []) ks = ks"
proof -
  from leaf_paths_items_first_key [OF assms(2)] have "ks \<noteq> []" "hd ks \<in> fst ` set kvs"
    by simp_all
  with assms(1) have "hd ks \<noteq> []" by metis
  with \<open>ks \<noteq> []\<close> show ?thesis by (cases ks) simp_all
qed

text \<open>
  What the flattening computes on every command table (a mapping at the root): one pair
  for each string leaf, in pre-order with siblings in the order of the mapping, so exactly
  \<open>count_leaves\<close> pairs, and none when there is no leaf. When no key at the top of the table
  is the empty string, the path of a pair is the dot-joined sequence of the keys from the
  root to the leaf; in general the empty keys at the head of that sequence are missing from
  the path.
\<close>

lemma flatten_preorder_paths:
  "extract_all_commands (to_json (Node kvs)) =
     map (\<lambda>(ks, s). (dot_join (dropWhile (\<lambda>k. k = []) ks), s)) (leaf_paths (Node kvs))
   \<and> length (extract_all_commands (to_json (Node kvs))) = count_leaves (Node kvs)
   \<and> (count_leaves (Node kvs) = 0 \<longrightarrow> extract_all_commands (to_json (Node kvs)) = [])
   \<and> ([] \<notin> fst ` set kvs \<longrightarrow>
        extract_all_commands (to_json (Node kvs)) =
          map (\<lambda>(ks, s). (dot_join ks, s)) (leaf_paths (Node kvs)))"
proof -
  have paths: "extract_all_commands (to_json (Node kvs)) =
      map (\<lambda>(ks, s). (dot_join (dropWhile (\<lambda>k. k = []) ks), s)) (leaf_paths (Node kvs))"
    by (rule extract_all_commands_table)
  then have len: "length (extract_all_commands (to_json (Node kvs))) = count_leaves (Node kvs)"
    by (simp add: length_leaf_paths)
  have plain: "extract_all_commands (to_json (Node kvs)) =
      map (\<lambda>(ks, s). (dot_join ks, s)) (leaf_paths (Node kvs))" if "[] \<notin> fst ` set kvs"
    unfolding paths using dropWhile_empty_keys [OF that]
    by (intro map_cong refl) auto
  from len have zero: "extract_all_commands (to_json (Node kvs)) = []"
    if "count_leaves (Node kvs) = 0"
    using that by simp
  from paths len zero plain show ?thesis
    by blast
qed

text \<open>The table \<open>{"a": {"b": "X1", "c": "X2"}}\<close> and the empty table.\<close>

lemma flatten_preorder_paths_example:
  "[] \<notin> fst ` set [(''a'', Node [(''b'', Leaf ''X1''), (''c'', Leaf ''X2'')])]
   \<and> extract_all_commands (to_json example_table) = [(''a.b'', ''X1''), (''a.c'', ''X2'')]
   \<and> count_leaves example_table = 2
   \<and> count_leaves (Node []) = 0
   \<and> extract_all_commands (to_json (Node [])) = []"
  using flatten_preorder_paths [of "[(''a'', Node [(''b'', Leaf ''X1''), (''c'', Leaf ''X2'')])]"]
    flatten_preorder_paths [of "[]"]
  by (simp add: example_table_def)

text \<open>
  Claim C5 asks for exactly one pair for each string leaf, in pre-order, each with the
  dot-joined sequence of the keys from the root to the leaf as its path. The code at the
  table \<open>{"": {"b": "X"}}\<close>: the keys on the way to the leaf are the empty key and \<open>b\<close>, which
  join to \<open>.b\<close>, and the flattening gives the path \<open>b\<close>. The test \<open>if path\<close> takes the empty
  path that the empty key leaves behind for the empty path of the root. An empty key below
  the top keeps its dot: \<open>{"d": {"": {"x": "V"}}}\<close> flattens to the path \<open>d..x\<close>.
\<close>

theorem flatten_empty_top_key_loses_dot:
  "extract_all_commands (to_json (Node [('''', Node [(''b'', Leaf ''X'')])])) = [(''b'', ''X'')]
   \<and> leaf_paths (Node [('''', Node [(''b'', Leaf ''X'')])]) = [(['''', ''b''], ''X'')]
   \<and> dot_join ['''', ''b''] = ''.b''
   \<and> extract_all_commands (to_json (Node [(''d'', Node [('''', Node [(''x'', Leaf ''V'')])])])) =
       [(''d..x'', ''V'')]
   \<and> dot_join [''d'', '''', ''x''] = ''d..x''"
  by (simp add: extract_all_commands_def current_path_def)

lemma extract_items_append:
  "extract_items (before @ after) path acc = extract_items after path (extract_items before path acc)"
proof (induction before arbitrary: acc)
  case Nil
  show ?case by simp
next
  case (Cons kv before)
  obtain k v where kv: "kv = (k, v)"
    by (cases kv)
  show ?case
    unfolding kv using Cons by (cases v) simp_all
qed

lemma extract_recursive_not_dict:
  "\<not> isinstance_dict v \<Longrightarrow> extract_recursive v path acc = acc"
  by (cases v) simp_all

lemma extract_items_skip:
  "\<not> isinstance_str v \<Longrightarrow> \<not> isinstance_dict v \<Longrightarrow>
     extract_items ((key, v) # items) path acc = extract_items items path acc"
  by (cases v) simp_all

text \<open>
  Claim C10. An item whose value is neither a string nor a mapping adds no command and
  raises nothing: the loop over the items of a mapping, at any depth (any path and any
  commands collected so far), gives what it gives without the item, and so does the
  flattening of a table that holds the item at its top; the recursive call on such a value
  returns the collected commands as they are, and flattening such a value gives no command.
\<close>

theorem flatten_skips_other_values:
  "\<not> isinstance_str v \<Longrightarrow> \<not> isinstance_dict v \<Longrightarrow>
     extract_items (before @ (key, v) # after) path acc = extract_items (before @ after) path acc
     \<and> extract_all_commands (JDict (before @ (key, v) # after)) =
         extract_all_commands (JDict (before @ after))
     \<and> extract_recursive v path acc = acc
     \<and> extract_all_commands v = []"
  by (simp add: extract_items_append extract_items_skip extract_recursive_not_dict
      extract_all_commands_def)

text \<open>The statement at a list value between two commands.\<close>

theorem flatten_skips_other_values_witness:
  "\<not> isinstance_str (JList [JStr ''x'']) \<and> \<not> isinstance_dict (JList [JStr ''x''])
   \<and> extract_all_commands
        (JDict [(''on'', JStr ''A1''), (''list'', JList [JStr ''x'']), (''off'', JStr ''A0'')]) =
      [(''on'', ''A1''), (''off'', ''A0'')]
   \<and> extract_all_commands (JList [JStr ''x'']) = []"
  using flatten_skips_other_values [of "JList [JStr ''x'']" "[(''on'', JStr ''A1'')]" "''list''"
      "[(''off'', JStr ''A0'')]" "[]" "[]"]
  by (simp add: extract_all_commands_def current_path_def)

section \<open>Properties of the batch runner\<close>

lemma run_callback_keeps:
  "client (run_callback cb self) = client self"
  "mqtt_topic (run_callback cb self) = mqtt_topic self"
  by (cases cb; simp add: on_connect_def on_disconnect_def on_publish_def)+

lemma fold_run_callback_keeps:
  "client (fold run_callback cbs self) = client self"
  "mqtt_topic (fold run_callback cbs self) = mqtt_topic self"
  by (induction cbs arbitrary: self) (simp_all add: run_callback_keeps)

lemma fold_run_callback_silent:
  "\<not> connected self \<Longrightarrow> OnConnect 0 \<notin> set cbs \<Longrightarrow> \<not> connected (fold run_callback cbs self)"
proof (induction cbs arbitrary: self)
  case Nil
  then show ?case by simp
next
  case (Cons cb cbs)
  from Cons.prems have "\<not> connected (run_callback cb self)"
    by (cases cb) (auto simp: on_connect_def on_disconnect_def on_publish_def)
  with Cons show ?case by simp
qed

lemma read_connected_frame:
  assumes "read_connected env self w = (c, self', w')"
  shows "w' = w\<lparr>looks := looks w + 1\<rparr>" "client self' = client self"
    "mqtt_topic self' = mqtt_topic self" "c = connected self'"
  using assms by (auto simp: read_connected_def Let_def fold_run_callback_keeps)

lemma read_connected_silent:
  assumes "\<not> connected self" "OnConnect 0 \<notin> set (callbacks env (looks w))"
  shows "\<exists>self'. read_connected env self w = (False, self', w\<lparr>looks := looks w + 1\<rparr>)
           \<and> \<not> connected self' \<and> client self' = client self"
  using assms by (simp add: read_connected_def Let_def fold_run_callback_keeps fold_run_callback_silent)

lemma wait_for_connection_frame:
  "wait_for_connection env timeout self w = (self', w') \<Longrightarrow>
     (\<exists>k. trace w' = trace w @ replicate k Sleep) \<and> prompts w' = prompts w
     \<and> publishes w' = publishes w \<and> client self' = client self
     \<and> mqtt_topic self' = mqtt_topic self"
proof (induction timeout arbitrary: self w)
  case 0
  obtain c s1 w1 where r: "read_connected env self w = (c, s1, w1)"
    by (cases "read_connected env self w")
  from "0" r have "self' = s1" "w' = w1"
    by (simp_all add: wait_for_connection.simps [of env 0])
  with read_connected_frame [OF r] show ?case
    by simp
next
  case (Suc timeout)
  obtain c s1 w1 where r: "read_connected env self w = (c, s1, w1)"
    by (cases "read_connected env self w")
  note f = read_connected_frame [OF r]
  show ?case
  proof (cases c)
    case True
    with Suc.prems r have "self' = s1" "w' = w1"
      by (simp_all add: wait_for_connection.simps [of env "Suc timeout"])
    with f show ?thesis by simp
  next
    case False
    with Suc.prems r have "wait_for_connection env timeout s1 (emit Sleep w1) = (self', w')"
      by (simp add: wait_for_connection.simps [of env "Suc timeout"])
    from Suc.IH [OF this] obtain k where
      k: "trace w' = trace (emit Sleep w1) @ replicate k Sleep"
      and rest: "prompts w' = prompts (emit Sleep w1)" "publishes w' = publishes (emit Sleep w1)"
        "client self' = client s1" "mqtt_topic self' = mqtt_topic s1"
      by blast
    from k f(1) have "trace w' = trace w @ replicate (Suc k) Sleep"
      by (simp add: emit_def replicate_append_same)
    with rest f show ?thesis
      by (auto simp: emit_def simp del: replicate_Suc)
  qed
qed

lemma wait_for_connection_silent:
  "\<not> connected self \<Longrightarrow> (\<forall>k. looks w \<le> k \<and> k \<le> looks w + n \<longrightarrow> OnConnect 0 \<notin> set (callbacks env k)) \<Longrightarrow>
     \<exists>self'. wait_for_connection env n self w =
                (self', w\<lparr>trace := trace w @ replicate n Sleep, looks := looks w + n + 1\<rparr>)
            \<and> \<not> connected self' \<and> client self' = client self"
proof (induction n arbitrary: self w)
  case 0
  then have "OnConnect 0 \<notin> set (callbacks env (looks w))" by simp
  from read_connected_silent [OF "0.prems"(1) this] show ?case
    by (auto simp: wait_for_connection.simps [of env 0])
next
  case (Suc n)
  then have "OnConnect 0 \<notin> set (callbacks env (looks w))" by simp
  from read_connected_silent [OF Suc.prems(1) this] obtain s1 where
    r: "read_connected env self w = (False, s1, w\<lparr>looks := looks w + 1\<rparr>)"
    and s1: "\<not> connected s1" "client s1 = client self"
    by blast
  let ?w1 = "emit Sleep (w\<lparr>looks := looks w + 1\<rparr>)"
  have "\<forall>k. looks ?w1 \<le> k \<and> k \<le> looks ?w1 + n \<longrightarrow> OnConnect 0 \<notin> set (callbacks env k)"
    using Suc.prems(2) by (simp add: emit_def)
  from Suc.IH [OF s1(1) this] obtain s2 where
    "wait_for_connection env n s1 ?w1 =
       (s2, ?w1\<lparr>trace := trace ?w1 @ replicate n Sleep, looks := looks ?w1 + n + 1\<rparr>)"
    "\<not> connected s2" "client s2 = client s1"
    by blast
  with r s1 show ?case
    by (simp add: wait_for_connection.simps [of env "Suc n"] emit_def replicate_append_same)
qed


lemma connect_frame:
  assumes "connect env self w = (Inr True, self', w')"
  shows "client self' = Some Client" "mqtt_topic self' = mqtt_topic self"
    "prompts w' = prompts w" "publishes w' = publishes w"
    "\<exists>es. trace w' = trace w @ es \<and> filter is_teardown es = [] \<and> filter is_publish es = []"
proof -
  let ?self1 = "self\<lparr>client := Some Client\<rparr>"
  let ?w1 = "emit ClientCreate w"
  let ?w2 = "if truthy_str (mqtt_username ?self1) \<and> truthy_str (mqtt_password ?self1)
             then emit (UsernamePwSet (the (mqtt_username ?self1)) (the (mqtt_password ?self1))) ?w1
             else ?w1"
  let ?w3 = "emit (Log INFO (MsgConnecting (mqtt_host ?self1) (mqtt_port ?self1))) ?w2"
  let ?w4 = "emit (ClientConnect (mqtt_host ?self1) (mqtt_port ?self1) 60) ?w3"
  from assms have none: "connect_raises env = None"
    by (auto simp: connect_def Let_def split: option.splits if_splits)
  obtain s2 w5 where wt: "wait_for_connection env 20 ?self1 (emit LoopStart ?w4) = (s2, w5)"
    by (cases "wait_for_connection env 20 ?self1 (emit LoopStart ?w4)")
  obtain c s3 w6 where rd: "read_connected env s2 w5 = (c, s3, w6)"
    by (cases "read_connected env s2 w5")
  from assms none wt rd have res: "self' = s3" "w' = w6"
    by (auto simp: connect_def Let_def split: if_splits)
  note f = wait_for_connection_frame [OF wt]
  note g = read_connected_frame [OF rd]
  from f obtain k where k: "trace w5 = trace (emit LoopStart ?w4) @ replicate k Sleep"
    by blast
  show "client self' = Some Client" "mqtt_topic self' = mqtt_topic self"
    using res f g by simp_all
  show "prompts w' = prompts w" "publishes w' = publishes w"
    using res f g by (simp_all add: emit_def)
  have "\<exists>es. trace (emit LoopStart ?w4) = trace w @ es \<and> filter is_teardown es = []
          \<and> filter is_publish es = []"
    by (simp add: emit_def)
  then obtain es where es: "trace (emit LoopStart ?w4) = trace w @ es"
      "filter is_teardown es = []" "filter is_publish es = []"
    by blast
  have "trace w' = trace w @ (es @ replicate k Sleep)"
    using res g k es(1) by simp
  moreover have "filter is_teardown (es @ replicate k Sleep) = []"
      "filter is_publish (es @ replicate k Sleep) = []"
    using es by simp_all
  ultimately show "\<exists>es. trace w' = trace w @ es \<and> filter is_teardown es = []
      \<and> filter is_publish es = []"
    by blast
qed

lemma connect_silent:
  assumes "connect_raises env = None" "\<not> connected self"
    and "\<forall>k. looks w \<le> k \<and> k \<le> looks w + 21 \<longrightarrow> OnConnect 0 \<notin> set (callbacks env k)"
  shows "\<exists>self'. connect env self w =
     (Inr False, self',
      w\<lparr>trace := trace w @ [ClientCreate]
           @ (if truthy_str (mqtt_username self) \<and> truthy_str (mqtt_password self)
              then [UsernamePwSet (the (mqtt_username self)) (the (mqtt_password self))] else [])
           @ [Log INFO (MsgConnecting (mqtt_host self) (mqtt_port self)),
              ClientConnect (mqtt_host self) (mqtt_port self) 60, LoopStart]
           @ replicate 20 Sleep @ [Log ERROR MsgConnectTimeout],
         looks := looks w + 22\<rparr>)"
proof -
  let ?self1 = "self\<lparr>client := Some Client\<rparr>"
  let ?w1 = "emit ClientCreate w"
  let ?w2 = "if truthy_str (mqtt_username ?self1) \<and> truthy_str (mqtt_password ?self1)
             then emit (UsernamePwSet (the (mqtt_username ?self1)) (the (mqtt_password ?self1))) ?w1
             else ?w1"
  let ?w3 = "emit (Log INFO (MsgConnecting (mqtt_host ?self1) (mqtt_port ?self1))) ?w2"
  let ?w4 = "emit (ClientConnect (mqtt_host ?self1) (mqtt_port ?self1) 60) ?w3"
  let ?w5 = "emit LoopStart ?w4"
  have lk: "looks ?w5 = looks w"
    by (simp add: emit_def)
  have "\<not> connected ?self1"
    using assms(2) by simp
  moreover have "\<forall>k. looks ?w5 \<le> k \<and> k \<le> looks ?w5 + 20 \<longrightarrow> OnConnect 0 \<notin> set (callbacks env k)"
    using assms(3) unfolding lk by simp
  ultimately obtain s2 where
    wt: "wait_for_connection env 20 ?self1 ?w5 =
           (s2, ?w5\<lparr>trace := trace ?w5 @ replicate 20 Sleep, looks := looks ?w5 + 20 + 1\<rparr>)"
    and s2: "\<not> connected s2"
    using wait_for_connection_silent [of ?self1 ?w5 20 env] by blast
  let ?w6 = "?w5\<lparr>trace := trace ?w5 @ replicate 20 Sleep, looks := looks ?w5 + 20 + 1\<rparr>"
  have "OnConnect 0 \<notin> set (callbacks env (looks ?w6))"
    using assms(3) by (simp add: emit_def)
  from read_connected_silent [OF s2 this] obtain s3 where
    rd: "read_connected env s2 ?w6 = (False, s3, ?w6\<lparr>looks := looks ?w6 + 1\<rparr>)"
    by blast
  have "connect env self w = (Inr False, s3, emit (Log ERROR MsgConnectTimeout) (?w6\<lparr>looks := looks ?w6 + 1\<rparr>))"
    using assms(1) wt rd unfolding connect_def Let_def by simp
  then show ?thesis
    by (simp add: emit_def)
qed


lemma send_command_cases:
  assumes "client self \<noteq> None"
  obtains (returned) out self' w' where
      "send_command env name cmd self w = (Inr (\<not> send_failed out), self', w')"
      "trace w' = trace w @ send_events (mqtt_topic self) name cmd out"
      "prompts w' = prompts w" "client self' = client self" "mqtt_topic self' = mqtt_topic self"
      "out \<noteq> PublishRaised KeyboardInterrupt"
    | (interrupted) self' w' where
      "send_command env name cmd self w = (Inl KeyboardInterrupt, self', w')"
      "trace w' = trace w @ [Publish (mqtt_topic self) (json_dumps_dict1 ''ir_code_to_send'' cmd)]"
      "prompts w' = prompts w" "client self' = client self" "mqtt_topic self' = mqtt_topic self"
      "publish_result env (publishes w) = PublishRaises KeyboardInterrupt"
proof -
  obtain c s1 w1 where rd: "read_connected env self w = (c, s1, w1)"
    by (cases "read_connected env self w")
  note f = read_connected_frame [OF rd]
  from assms f obtain cl where cl: "client s1 = Some cl"
    by auto
  show thesis
  proof (cases c)
    case False
    with rd have "send_command env name cmd self w =
        (Inr (\<not> send_failed NotConnected), s1, emit (Log ERROR MsgNotConnected) w1)"
      by (simp add: send_command_def send_failed_def)
    then show thesis
      by (rule returned) (use f in \<open>simp_all add: emit_def\<close>)
  next
    case True
    let ?pl = "json_dumps_dict1 ''ir_code_to_send'' cmd"
    let ?w2 = "(emit (Publish (mqtt_topic s1) ?pl) w1)\<lparr>publishes := publishes w1 + 1\<rparr>"
    show thesis
    proof (cases "publish_result env (publishes w1)")
      case (PublishRc rc)
      with rd True cl have "send_command env name cmd self w =
          (Inr (\<not> send_failed (Published rc)), s1,
           emit (if rc = 0 then Log INFO (MsgSent name (mqtt_topic s1))
                 else Log ERROR (MsgPublishFailed name rc)) ?w2)"
        by (simp add: send_command_def client_publish_def send_failed_def MQTT_ERR_SUCCESS_def)
      then show thesis
        by (rule returned) (use f in \<open>simp_all add: emit_def\<close>)
    next
      case (PublishRaises e)
      show thesis
      proof (cases "e = KeyboardInterrupt")
        case True
        with rd \<open>c\<close> cl PublishRaises have
          "send_command env name cmd self w = (Inl KeyboardInterrupt, s1, ?w2)"
          by (simp add: send_command_def client_publish_def isinstance_Exception_def)
        then show thesis
          by (rule interrupted) (use f PublishRaises True in \<open>simp_all add: emit_def\<close>)
      next
        case False
        with rd \<open>c\<close> cl PublishRaises have
          "send_command env name cmd self w =
             (Inr (\<not> send_failed (PublishRaised e)), s1, emit (Log ERROR (MsgSendError name e)) ?w2)"
          by (simp add: send_command_def client_publish_def isinstance_Exception_def send_failed_def)
        then show thesis
          by (rule returned) (use f False in \<open>simp_all add: emit_def\<close>)
      qed
    qed
  qed
qed

lemma send_events_no_teardown: "filter is_teardown (send_events tpc name cmd out) = []"
  by (cases out) simp_all

lemma send_events_publish:
  "filter is_publish (send_events tpc name cmd out) =
     (if out = NotConnected then [] else [Publish tpc (json_dumps_dict1 ''ir_code_to_send'' cmd)])"
  by (cases out) simp_all

lemma get_user_confirmation_answer:
  "get_user_confirmation env w =
     (case input_result env (prompts w) of
        InputRaises e \<Rightarrow> Inl e
      | Line response \<Rightarrow> Inr (continues (Line response)),
      w\<lparr>trace := trace w @ [Input prompt_text], prompts := prompts w + 1\<rparr>)"
  by (simp add: get_user_confirmation_def Let_def emit_def split: input_outcome.splits)


lemma run_commands_frame:
  "client self \<noteq> None \<Longrightarrow> run_commands env i n cmds self w = (r, self', w') \<Longrightarrow>
     filter is_teardown (trace w') = filter is_teardown (trace w) \<and> client self' = client self"
proof (induction cmds arbitrary: i self w)
  case Nil
  then show ?case by simp
next
  case (Cons c cmds)
  obtain name cmd where c: "c = (name, cmd)"
    by (cases c)
  let ?w1 = "emit (PrintData (take 50 cmd @ (if length cmd > 50 then ''...'' else [])))
               (emit (PrintHeader i n name) w)"
  have w1: "filter is_teardown (trace ?w1) = filter is_teardown (trace w)"
    by (simp add: emit_def)
  from Cons.prems(1) show ?case
  proof (cases rule: send_command_cases [of self env name cmd ?w1])
    case (interrupted s1 w2)
    with Cons.prems(2) c w1 show ?thesis
      by (auto simp: Let_def)
  next
    case (returned out s1 w2)
    let ?w3 = "if send_failed out then emit (Log WARNING (MsgFailedToSend name)) w2 else w2"
    have w3: "filter is_teardown (trace ?w3) = filter is_teardown (trace w)"
      using returned(2) w1 by (simp add: emit_def send_events_no_teardown)
    from returned(4) Cons.prems(1) have s1: "client s1 \<noteq> None"
      by simp
    show ?thesis
    proof (cases "i < n")
      case False
      with Cons.prems(2) c returned(1) have "run_commands env (i + 1) n cmds s1 ?w3 = (r, self', w')"
        by (simp add: Let_def)
      from Cons.IH [OF s1 this] w3 returned(4) show ?thesis
        by simp
    next
      case True
      let ?w4 = "?w3\<lparr>trace := trace ?w3 @ [Input prompt_text], prompts := prompts ?w3 + 1\<rparr>"
      have w4: "filter is_teardown (trace ?w4) = filter is_teardown (trace w)"
        using w3 by simp
      show ?thesis
      proof (cases "input_result env (prompts ?w3)")
        case (InputRaises e)
        with Cons.prems(2) c returned(1) True have "self' = s1" "w' = ?w4"
          by (simp_all add: Let_def get_user_confirmation_answer)
        with w4 returned(4) show ?thesis
          by simp
      next
        case (Line response)
        show ?thesis
        proof (cases "continues (Line response)")
          case False
          with Cons.prems(2) c returned(1) True Line
          have "self' = s1" "w' = emit (Log INFO MsgUserStop) ?w4"
            by (simp_all add: Let_def get_user_confirmation_answer)
          with w4 returned(4) show ?thesis
            by (simp add: emit_def)
        next
          case go: True
          with Cons.prems(2) c returned(1) True Line
          have "run_commands env (i + 1) n cmds s1 ?w4 = (r, self', w')"
            by (simp add: Let_def get_user_confirmation_answer)
          from Cons.IH [OF s1 this] w4 returned(4) show ?thesis
            by simp
        qed
      qed
    qed
  qed
qed

lemma send_command_returns:
  assumes "client self \<noteq> None"
    and "publish_result env (publishes w) \<noteq> PublishRaises KeyboardInterrupt"
    and "self' = fold run_callback (callbacks env (looks w)) self"
    and "out = (if connected self' then outcome_of (publish_result env (publishes w))
                else NotConnected)"
  shows "send_command env name cmd self w =
     (Inr (\<not> send_failed out), self',
      w\<lparr>trace := trace w @ send_events (mqtt_topic self) name cmd out,
        looks := looks w + 1,
        publishes := (if connected self' then publishes w + 1 else publishes w)\<rparr>)"
proof -
  have rd: "read_connected env self w = (connected self', self', w\<lparr>looks := looks w + 1\<rparr>)"
    using assms(3) by (simp add: read_connected_def Let_def)
  from assms(1,3) obtain cl where cl: "client self' = Some cl"
    by (auto simp: fold_run_callback_keeps)
  have tp: "mqtt_topic self' = mqtt_topic self"
    using assms(3) by (simp add: fold_run_callback_keeps)
  show ?thesis
  proof (cases "connected self'")
    case False
    with rd assms(4) show ?thesis
      by (simp add: send_command_def send_failed_def emit_def)
  next
    case True
    show ?thesis
    proof (cases "publish_result env (publishes w)")
      case (PublishRc rc)
      with rd True cl tp assms(4) show ?thesis
        by (simp add: send_command_def client_publish_def send_failed_def MQTT_ERR_SUCCESS_def
            emit_def)
    next
      case (PublishRaises e)
      with assms(2) have "e \<noteq> KeyboardInterrupt"
        by simp
      with rd True cl tp assms(4) PublishRaises show ?thesis
        by (simp add: send_command_def client_publish_def send_failed_def isinstance_Exception_def
            emit_def)
    qed
  qed
qed

lemma run_commands_step:
  assumes "send_command env name cmd self
             (emit (PrintData (take 50 cmd @ (if length cmd > 50 then ''...'' else [])))
                (emit (PrintHeader i n name) w)) = (Inr ok, s1, w2)"
    and "continues (input_result env (prompts w2))"
    and "w3 = (if \<not> ok then emit (Log WARNING (MsgFailedToSend name)) w2 else w2)"
    and "w5 = (if i < n then w3\<lparr>trace := trace w3 @ [Input prompt_text],
                                 prompts := prompts w3 + 1\<rparr> else w3)"
  shows "run_commands env i n ((name, cmd) # cmds) self w = run_commands env (i + 1) n cmds s1 w5"
proof -
  have "prompts w3 = prompts w2"
    using assms(3) by (simp add: emit_def)
  with assms(2) have "continues (input_result env (prompts w3))"
    by simp
  then show ?thesis
    using assms(1,3,4)
    by (cases "input_result env (prompts w3)") (simp_all add: Let_def get_user_confirmation_answer)
qed

lemma run_commands_outcomes:
  assumes "\<forall>k. continues (input_result env k)"
    and "\<forall>k. publish_result env k \<noteq> PublishRaises KeyboardInterrupt"
  shows "client self \<noteq> None \<Longrightarrow>
     \<exists>self' w'. run_commands env i n cmds self w = (Inr (), self', w')
        \<and> client self' = client self
        \<and> trace w' = trace w @ paced_run (mqtt_topic self) i n cmds
             (send_outcomes env (length cmds) self (looks w) (publishes w))"
proof (induction cmds arbitrary: i self w)
  case Nil
  then show ?case by simp
next
  case (Cons c cmds)
  obtain name cmd where c: "c = (name, cmd)"
    by (cases c)
  define w1 where "w1 = emit (PrintData (take 50 cmd @ (if length cmd > 50 then ''...'' else [])))
               (emit (PrintHeader i n name) w)"
  define s1 where "s1 = fold run_callback (callbacks env (looks w)) self"
  define out where "out = (if connected s1 then outcome_of (publish_result env (publishes w))
                           else NotConnected)"
  define w2 where "w2 = w1\<lparr>trace := trace w1 @ send_events (mqtt_topic self) name cmd out,
        looks := looks w1 + 1,
        publishes := (if connected s1 then publishes w1 + 1 else publishes w1)\<rparr>"
  define w3 where "w3 = (if \<not> \<not> send_failed out then emit (Log WARNING (MsgFailedToSend name)) w2
                         else w2)"
  define w5 where "w5 = (if i < n then w3\<lparr>trace := trace w3 @ [Input prompt_text],
                                 prompts := prompts w3 + 1\<rparr> else w3)"
  have lw: "looks w1 = looks w" "publishes w1 = publishes w"
    "trace w1 = trace w @ [PrintHeader i n name,
        PrintData (take 50 cmd @ (if length cmd > 50 then ''...'' else []))]"
    by (simp_all add: w1_def emit_def)
  from assms(2) have nk: "publish_result env (publishes w1) \<noteq> PublishRaises KeyboardInterrupt"
    by blast
  have sent: "send_command env name cmd self w1 = (Inr (\<not> send_failed out), s1, w2)"
    unfolding w2_def
    by (rule send_command_returns [OF Cons.prems nk]) (simp_all add: lw s1_def out_def)
  from assms(1) have go: "continues (input_result env (prompts w2))"
    by blast
  have step: "run_commands env i n (c # cmds) self w = run_commands env (i + 1) n cmds s1 w5"
    unfolding c by (rule run_commands_step [OF sent [unfolded w1_def] go w3_def w5_def])
  have s1: "client s1 \<noteq> None" "mqtt_topic s1 = mqtt_topic self" "client s1 = client self"
    using Cons.prems by (simp_all add: s1_def fold_run_callback_keeps)
  from Cons.IH [OF s1(1), of "i + 1" w5] obtain s2 w6 where
    run: "run_commands env (i + 1) n cmds s1 w5 = (Inr (), s2, w6)"
    and cl: "client s2 = client s1"
    and tr: "trace w6 = trace w5 @ paced_run (mqtt_topic s1) (i + 1) n cmds
               (send_outcomes env (length cmds) s1 (looks w5) (publishes w5))"
    by blast
  have l5: "looks w5 = Suc (looks w)"
    "publishes w5 = (if connected s1 then Suc (publishes w) else publishes w)"
    by (simp_all add: w5_def w3_def w2_def lw emit_def)
  have t5: "trace w5 = trace w @ [PrintHeader i n name,
        PrintData (take 50 cmd @ (if length cmd > 50 then ''...'' else []))]
        @ send_events (mqtt_topic self) name cmd out
        @ (if send_failed out then [Log WARNING (MsgFailedToSend name)] else [])
        @ (if i < n then [Input prompt_text] else [])"
    by (simp add: w5_def w3_def w2_def lw emit_def)
  have so: "send_outcomes env (Suc (length cmds)) self (looks w) (publishes w) =
      out # send_outcomes env (length cmds) s1 (looks w5) (publishes w5)"
    unfolding l5 by (simp add: Let_def s1_def out_def)
  have "trace w6 = trace w @ paced_run (mqtt_topic self) i n (c # cmds)
      (send_outcomes env (length (c # cmds)) self (looks w) (publishes w))"
    unfolding c by (simp add: so tr t5 s1(2) del: send_outcomes.simps)
  with step run cl s1(3) show ?case
    by simp
qed

lemma fold_run_callback_stays:
  "connected self \<Longrightarrow> \<forall>rc. OnDisconnect rc \<notin> set cbs \<Longrightarrow> connected (fold run_callback cbs self)"
proof (induction cbs arbitrary: self)
  case Nil
  then show ?case by simp
next
  case (Cons cb cbs)
  from Cons.prems have "connected (run_callback cb self)"
    by (cases cb) (auto simp: on_connect_def on_disconnect_def on_publish_def)
  with Cons show ?case by simp
qed

lemma send_outcomes_connected:
  "connected self \<Longrightarrow> \<forall>k rc. l \<le> k \<longrightarrow> OnDisconnect rc \<notin> set (callbacks env k) \<Longrightarrow>
     send_outcomes env m self l p = map (\<lambda>j. outcome_of (publish_result env j)) [p..<p + m]"
proof (induction m arbitrary: self l p)
  case 0
  show ?case by simp
next
  case (Suc m)
  let ?s1 = "fold run_callback (callbacks env l) self"
  from Suc.prems have c1: "connected ?s1"
    by (intro fold_run_callback_stays) auto
  from Suc.prems(2) have "\<forall>k rc. Suc l \<le> k \<longrightarrow> OnDisconnect rc \<notin> set (callbacks env k)"
    by simp
  from Suc.IH [OF c1 this, of "Suc p"]
  have ih: "send_outcomes env m ?s1 (Suc l) (Suc p) =
      map (\<lambda>j. outcome_of (publish_result env j)) [Suc p..<Suc p + m]" .
  have "[p..<p + Suc m] = p # [Suc p..<Suc p + m]"
    by (simp add: upt_conv_Cons)
  with ih c1 show ?case
    by (simp add: Let_def del: upt_Suc)
qed


lemma run_commands_quit:
  assumes "client self \<noteq> None" "i < n" "quits (input_result env (prompts w))"
    and "run_commands env i n ((name, cmd) # rest) self w = (r, self', w')"
  shows "filter is_publish (trace w') = filter is_publish (trace w)
       \<or> filter is_publish (trace w') =
           filter is_publish (trace w) @ [Publish (mqtt_topic self) (json_dumps_dict1 ''ir_code_to_send'' cmd)]"
proof -
  let ?w1 = "emit (PrintData (take 50 cmd @ (if length cmd > 50 then ''...'' else [])))
               (emit (PrintHeader i n name) w)"
  have w1: "filter is_publish (trace ?w1) = filter is_publish (trace w)" "prompts ?w1 = prompts w"
    by (simp_all add: emit_def)
  from assms(1) show ?thesis
  proof (cases rule: send_command_cases [of self env name cmd ?w1])
    case (interrupted s1 w2)
    with assms(4) w1 show ?thesis
      by (auto simp: Let_def)
  next
    case (returned out s1 w2)
    let ?w3 = "if send_failed out then emit (Log WARNING (MsgFailedToSend name)) w2 else w2"
    let ?w4 = "?w3\<lparr>trace := trace ?w3 @ [Input prompt_text], prompts := prompts ?w3 + 1\<rparr>"
    have "prompts ?w3 = prompts w"
      using returned(3) w1 by (simp add: emit_def)
    with assms(3) obtain response where
      line: "input_result env (prompts ?w3) = Line response" "\<not> continues (Line response)"
      by (cases "input_result env (prompts w)") auto
    with assms(2,4) returned(1) have "w' = emit (Log INFO MsgUserStop) ?w4"
      by (simp add: Let_def get_user_confirmation_answer)
    then have "filter is_publish (trace w') =
        filter is_publish (trace w) @ filter is_publish (send_events (mqtt_topic self) name cmd out)"
      using returned(2) w1 by (simp add: emit_def)
    then show ?thesis
      by (simp add: send_events_publish)
  qed
qed


lemma load_toshiba_commands_loaded:
  "load_toshiba_commands env w = (Inr d, w') \<Longrightarrow>
     load_result env = Inr d \<and> w' = emit (Log INFO MsgLoaded) w"
  by (auto simp: load_toshiba_commands_def split: sum.splits py_exception.splits if_splits)

lemma prepare_connected:
  assumes "prepare env cfg = (Inr (cmds, self), w)"
  shows "client self = Some Client" "mqtt_topic self = cfg_topic cfg" "prompts w = 0"
    "filter is_teardown (trace w) = []" "filter is_publish (trace w) = []"
proof -
  obtain d w0 where ld: "load_toshiba_commands env initial_world = (Inr d, w0)"
    using assms by (auto simp: prepare_def split: sum.splits prod.splits)
  then have w0: "w0 = emit (Log INFO MsgLoaded) initial_world"
    by (simp add: load_toshiba_commands_loaded)
  obtain commands where dg: "dict_get d ''commands'' (JDict []) = Inr commands" "truthy commands"
    using assms ld by (auto simp: prepare_def split: sum.splits if_splits)
  let ?w1 = "emit (Log INFO (MsgFound (length (extract_all_commands commands)))) w0"
  let ?t = "ToshibaMQTTTester (cfg_host cfg) (cfg_port cfg) (cfg_topic cfg)
              (cfg_username cfg) (cfg_password cfg)"
  from assms ld dg have cn: "connect env ?t ?w1 = (Inr True, self, w)"
    by (auto simp: prepare_def Let_def split: sum.splits prod.splits if_splits)
  note f = connect_frame [OF cn]
  from f(5) obtain es where es: "trace w = trace ?w1 @ es" "filter is_teardown es = []"
      "filter is_publish es = []"
    by blast
  show "client self = Some Client" by (rule f(1))
  show "mqtt_topic self = cfg_topic cfg"
    using f(2) by (simp add: ToshibaMQTTTester_def)
  show "prompts w = 0"
    using f(3) w0 by (simp add: emit_def initial_world_def)
  show "filter is_teardown (trace w) = []" "filter is_publish (trace w) = []"
    using es w0 by (simp_all add: emit_def initial_world_def)
qed

lemma session_teardown:
  assumes "client self \<noteq> None"
  shows "filter is_teardown (trace (session env cmds self w)) =
           filter is_teardown (trace w) @ [LoopStop, ClientDisconnect]"
proof -
  obtain r s1 w1 where run: "run_commands env 1 (length cmds) cmds self w = (r, s1, w1)"
    by (cases "run_commands env 1 (length cmds) cmds self w")
  from run_commands_frame [OF assms run] obtain cl where
    "filter is_teardown (trace w1) = filter is_teardown (trace w)" "client s1 = Some cl"
    using assms by auto
  with run show ?thesis
    by (cases r) (simp_all add: session_def Let_def disconnect_def emit_def)
qed


lemma connect_connected:
  assumes "connect env self w = (Inr True, self', w')"
  shows "connected self'"
proof -
  let ?self1 = "self\<lparr>client := Some Client\<rparr>"
  let ?w1 = "emit ClientCreate w"
  let ?w2 = "if truthy_str (mqtt_username ?self1) \<and> truthy_str (mqtt_password ?self1)
             then emit (UsernamePwSet (the (mqtt_username ?self1)) (the (mqtt_password ?self1))) ?w1
             else ?w1"
  let ?w3 = "emit (Log INFO (MsgConnecting (mqtt_host ?self1) (mqtt_port ?self1))) ?w2"
  let ?w4 = "emit (ClientConnect (mqtt_host ?self1) (mqtt_port ?self1) 60) ?w3"
  from assms have none: "connect_raises env = None"
    by (auto simp: connect_def Let_def split: option.splits if_splits)
  obtain s2 w5 where wt: "wait_for_connection env 20 ?self1 (emit LoopStart ?w4) = (s2, w5)"
    by (cases "wait_for_connection env 20 ?self1 (emit LoopStart ?w4)")
  obtain c s3 w6 where rd: "read_connected env s2 w5 = (c, s3, w6)"
    by (cases "read_connected env s2 w5")
  from assms none wt rd have "self' = s3" "c"
    by (auto simp: connect_def Let_def split: if_splits)
  with read_connected_frame(4) [OF rd] show ?thesis
    by simp
qed

lemma prepare_ready:
  assumes "prepare env cfg = (Inr (cmds, self), w)"
  shows "connected self" "publishes w = 0"
proof -
  obtain d w0 where ld: "load_toshiba_commands env initial_world = (Inr d, w0)"
    using assms by (auto simp: prepare_def split: sum.splits prod.splits)
  then have w0: "w0 = emit (Log INFO MsgLoaded) initial_world"
    by (simp add: load_toshiba_commands_loaded)
  obtain commands where dg: "dict_get d ''commands'' (JDict []) = Inr commands" "truthy commands"
    using assms ld by (auto simp: prepare_def split: sum.splits if_splits)
  let ?w1 = "emit (Log INFO (MsgFound (length (extract_all_commands commands)))) w0"
  let ?t = "ToshibaMQTTTester (cfg_host cfg) (cfg_port cfg) (cfg_topic cfg)
              (cfg_username cfg) (cfg_password cfg)"
  from assms ld dg have cn: "connect env ?t ?w1 = (Inr True, self, w)"
    by (auto simp: prepare_def Let_def split: sum.splits prod.splits if_splits)
  show "connected self"
    by (rule connect_connected [OF cn])
  show "publishes w = 0"
    using connect_frame(4) [OF cn] w0 by (simp add: emit_def initial_world_def)
qed

lemma main_connected:
  assumes "prepare env cfg = (Inr (all_commands, mqtt_client), w)"
  shows "main env cfg = (Returned, session env all_commands mqtt_client w)"
  using assms by (simp add: main_def)

text \<open>
  The guard of \<open>main\<close> on the loaded table: when the device file loads and its \<open>commands\<close>
  value is empty (the key is absent, or its value is an empty mapping or any other falsy
  value), \<open>main\<close> reports "No commands found", ends the process with status 1 and has done
  nothing else: no client is created, no connection is opened.
\<close>

lemma empty_table_stops_before_connection:
  assumes "load_result env = Inr device_data"
    and "dict_get device_data ''commands'' (JDict []) = Inr commands"
    and "\<not> truthy commands"
  shows "main env cfg =
     (SysExit 1,
      \<lparr>trace = [Log INFO MsgLoaded, Log ERROR MsgNoCommands],
       looks = 0, publishes = 0, prompts = 0\<rparr>)"
  using assms
  by (simp add: main_def prepare_def load_toshiba_commands_def emit_def initial_world_def)

text \<open>A device file whose \<open>commands\<close> is \<open>{}\<close>.\<close>

lemma empty_table_stops_before_connection_example:
  "load_result empty_env = Inr (JDict [(''commands'', JDict [])])
   \<and> dict_get (JDict [(''commands'', JDict [])]) ''commands'' (JDict []) = Inr (JDict [])
   \<and> \<not> truthy (JDict [])
   \<and> main empty_env example_config =
       (SysExit 1,
        \<lparr>trace = [Log INFO MsgLoaded, Log ERROR MsgNoCommands],
         looks = 0, publishes = 0, prompts = 0\<rparr>)"
proof -
  have l: "load_result empty_env = Inr (JDict [(''commands'', JDict [])])"
    by (simp add: empty_env_def example_env_def)
  have d: "dict_get (JDict [(''commands'', JDict [])]) ''commands'' (JDict []) = Inr (JDict [])"
    by (simp add: dict_get_def)
  have t: "\<not> truthy (JDict [])"
    by simp
  from empty_table_stops_before_connection [OF l d t, of example_config] l d t
  show ?thesis
    by blast
qed

text \<open>
  Claim C6 asks that a table that flattens to no command stop the run before the
  connection is opened or used. The code at the device file \<open>{"commands": {"a": {}}}\<close>: the
  table is not empty, so the guard lets it pass; it flattens to no command, "Found 0 total
  commands" is logged, and the run creates the client, connects, waits for the broker, and
  tears the connection down after a batch of nothing.
\<close>

theorem hollow_table_still_connects:
  "load_result hollow_env = Inr (JDict [(''commands'', JDict [(''a'', JDict [])])])
   \<and> extract_all_commands (JDict [(''a'', JDict [])]) = []
   \<and> main hollow_env example_config =
       (Returned,
        \<lparr>trace = [Log INFO MsgLoaded, Log INFO (MsgFound 0), ClientCreate,
                  Log INFO (MsgConnecting ''localhost'' 1883),
                  ClientConnect ''localhost'' 1883 60, LoopStart, Sleep, Sleep,
                  Log INFO MsgCompleted, LoopStop, ClientDisconnect, Log INFO MsgDisconnected],
         looks = 4, publishes = 0, prompts = 0\<rparr>)"
  by code_simp

text \<open>
  Claim C9. When the commands are loaded and not empty, \<open>client.connect\<close> returns, and no
  connected-callback with return code 0 is delivered before any of the 22 looks at the flag,
  the run is exactly this: the client is created and asked to connect, the network loop
  is started, the main thread sleeps 20 times half a unit (10 units), the timeout and the
  failure to connect are logged as errors, and the process ends with status 1. No publish
  is attempted.
\<close>

theorem connection_timeout_aborts:
  assumes "load_result env = Inr device_data"
    and "dict_get device_data ''commands'' (JDict []) = Inr commands"
    and "truthy commands"
    and "connect_raises env = None"
    and "\<forall>k\<le>21. OnConnect 0 \<notin> set (callbacks env k)"
  shows "main env cfg =
     (SysExit 1,
      \<lparr>trace = [Log INFO MsgLoaded, Log INFO (MsgFound (length (extract_all_commands commands))),
                ClientCreate]
          @ (if truthy_str (cfg_username cfg) \<and> truthy_str (cfg_password cfg)
             then [UsernamePwSet (the (cfg_username cfg)) (the (cfg_password cfg))] else [])
          @ [Log INFO (MsgConnecting (cfg_host cfg) (cfg_port cfg)),
             ClientConnect (cfg_host cfg) (cfg_port cfg) 60, LoopStart]
          @ replicate 20 Sleep
          @ [Log ERROR MsgConnectTimeout, Log ERROR MsgFailedToConnect],
       looks = 22, publishes = 0, prompts = 0\<rparr>)
     \<and> filter is_publish (trace (snd (main env cfg))) = []"
proof -
  let ?w1 = "emit (Log INFO (MsgFound (length (extract_all_commands commands))))
               (emit (Log INFO MsgLoaded) initial_world)"
  let ?t = "ToshibaMQTTTester (cfg_host cfg) (cfg_port cfg) (cfg_topic cfg)
              (cfg_username cfg) (cfg_password cfg)"
  have nc: "\<not> connected ?t"
    by (simp add: ToshibaMQTTTester_def)
  have "looks ?w1 = 0"
    by (simp add: emit_def initial_world_def)
  with assms(5) have "\<forall>k. looks ?w1 \<le> k \<and> k \<le> looks ?w1 + 21 \<longrightarrow> OnConnect 0 \<notin> set (callbacks env k)"
    by simp
  from connect_silent [OF assms(4) nc this] obtain s where
    cn: "connect env ?t ?w1 =
     (Inr False, s,
      ?w1\<lparr>trace := trace ?w1 @ [ClientCreate]
           @ (if truthy_str (mqtt_username ?t) \<and> truthy_str (mqtt_password ?t)
              then [UsernamePwSet (the (mqtt_username ?t)) (the (mqtt_password ?t))] else [])
           @ [Log INFO (MsgConnecting (mqtt_host ?t) (mqtt_port ?t)),
              ClientConnect (mqtt_host ?t) (mqtt_port ?t) 60, LoopStart]
           @ replicate 20 Sleep @ [Log ERROR MsgConnectTimeout],
         looks := looks ?w1 + 22\<rparr>)"
    by blast
  have m: "main env cfg =
     (SysExit 1,
      \<lparr>trace = [Log INFO MsgLoaded, Log INFO (MsgFound (length (extract_all_commands commands))),
                ClientCreate]
          @ (if truthy_str (cfg_username cfg) \<and> truthy_str (cfg_password cfg)
             then [UsernamePwSet (the (cfg_username cfg)) (the (cfg_password cfg))] else [])
          @ [Log INFO (MsgConnecting (cfg_host cfg) (cfg_port cfg)),
             ClientConnect (cfg_host cfg) (cfg_port cfg) 60, LoopStart]
          @ replicate 20 Sleep
          @ [Log ERROR MsgConnectTimeout, Log ERROR MsgFailedToConnect],
       looks = 22, publishes = 0, prompts = 0\<rparr>)"
    using assms(1-3) cn
    by (simp add: main_def prepare_def load_toshiba_commands_def Let_def emit_def
        initial_world_def ToshibaMQTTTester_def)
  then show ?thesis
    by simp
qed

text \<open>The statement at a broker that never answers.\<close>

theorem connection_timeout_aborts_witness:
  "load_result silent_env = Inr example_device_data
   \<and> dict_get example_device_data ''commands'' (JDict []) = Inr example_commands
   \<and> truthy example_commands
   \<and> connect_raises silent_env = None
   \<and> (\<forall>k. OnConnect 0 \<notin> set (callbacks silent_env k))
   \<and> main silent_env example_config =
       (SysExit 1,
        \<lparr>trace = [Log INFO MsgLoaded, Log INFO (MsgFound 2), ClientCreate,
                  Log INFO (MsgConnecting ''localhost'' 1883),
                  ClientConnect ''localhost'' 1883 60, LoopStart]
                 @ replicate 20 Sleep
                 @ [Log ERROR MsgConnectTimeout, Log ERROR MsgFailedToConnect],
         looks = 22, publishes = 0, prompts = 0\<rparr>)"
proof -
  have l: "load_result silent_env = Inr example_device_data"
    by (simp add: silent_env_def example_env_def)
  have d: "dict_get example_device_data ''commands'' (JDict []) = Inr example_commands"
    by (simp add: dict_get_def example_device_data_def)
  have t: "truthy example_commands"
    by (simp add: example_commands_def)
  have c: "connect_raises silent_env = None"
    by (simp add: silent_env_def example_env_def)
  have s: "\<forall>k. OnConnect 0 \<notin> set (callbacks silent_env k)"
    by (simp add: silent_env_def)
  then have s': "\<forall>k\<le>21. OnConnect 0 \<notin> set (callbacks silent_env k)"
    by simp
  have n: "length (extract_all_commands example_commands) = 2"
    by (simp add: example_commands_def extract_all_commands_def current_path_def)
  from connection_timeout_aborts [OF l d t c s', of example_config]
  have "main silent_env example_config =
       (SysExit 1,
        \<lparr>trace = [Log INFO MsgLoaded, Log INFO (MsgFound 2), ClientCreate,
                  Log INFO (MsgConnecting ''localhost'' 1883),
                  ClientConnect ''localhost'' 1883 60, LoopStart]
                 @ replicate 20 Sleep
                 @ [Log ERROR MsgConnectTimeout, Log ERROR MsgFailedToConnect],
         looks = 22, publishes = 0, prompts = 0\<rparr>)"
    unfolding n by (simp add: example_config_def truthy_str_def)
  with l d t c s show ?thesis
    by blast
qed


text \<open>
  Claim C7. In a run that reached the batch, with an operator who lets every prompt pass
  and no interruption during a publish, the run completes, and its batch is the paced run
  over all the flattened commands for the outcomes that the environment gives the sends,
  one after the other: every command is attempted in order; an attempt that fails (the
  publish call returns a code other than 0 or raises, or the tester is no longer connected
  and \<open>send_command\<close> refuses) is followed by a warning, then by the prompt unless the
  command is the last, then by the attempt of the next command. As long as no disconnection
  is delivered during the batch, every attempt is a publish call, the outcome of command
  \<open>j\<close> is what the \<open>j\<close>-th publish call gives, and so a failed publish of a command is
  followed by the warning, the prompt and the publish of the next command.
\<close>

theorem publish_failure_does_not_abort:
  assumes "prepare env cfg = (Inr (all_commands, mqtt_client), w)"
    and "\<forall>k. continues (input_result env k)"
    and "\<forall>k. publish_result env k \<noteq> PublishRaises KeyboardInterrupt"
  shows "fst (main env cfg) = Returned
     \<and> trace (snd (main env cfg)) =
         trace w @ paced_run (cfg_topic cfg) 1 (length all_commands) all_commands
                     (send_outcomes env (length all_commands) mqtt_client (looks w) 0)
         @ [Log INFO MsgCompleted, LoopStop, ClientDisconnect, Log INFO MsgDisconnected]
     \<and> ((\<forall>k rc. looks w \<le> k \<longrightarrow> OnDisconnect rc \<notin> set (callbacks env k)) \<longrightarrow>
          send_outcomes env (length all_commands) mqtt_client (looks w) 0 =
            map (\<lambda>j. outcome_of (publish_result env j)) [0..<length all_commands])"
proof -
  note p = prepare_connected [OF assms(1)]
  note q = prepare_ready [OF assms(1)]
  from p(1) have cl: "client mqtt_client \<noteq> None"
    by simp
  from run_commands_outcomes [OF assms(2,3) cl, of 1 "length all_commands" all_commands w]
  obtain s1 w1 where
    run: "run_commands env 1 (length all_commands) all_commands mqtt_client w = (Inr (), s1, w1)"
    and c1: "client s1 = client mqtt_client"
    and tr: "trace w1 = trace w @ paced_run (mqtt_topic mqtt_client) 1 (length all_commands)
               all_commands (send_outcomes env (length all_commands) mqtt_client (looks w) (publishes w))"
    by blast
  from c1 p(1) have "client s1 = Some Client"
    by simp
  with run tr p(2) q(2) have "trace (session env all_commands mqtt_client w) =
      trace w @ paced_run (cfg_topic cfg) 1 (length all_commands) all_commands
                  (send_outcomes env (length all_commands) mqtt_client (looks w) 0)
      @ [Log INFO MsgCompleted, LoopStop, ClientDisconnect, Log INFO MsgDisconnected]"
    by (simp add: session_def Let_def disconnect_def emit_def)
  moreover have "send_outcomes env (length all_commands) mqtt_client (looks w) 0 =
      map (\<lambda>j. outcome_of (publish_result env j)) [0..<length all_commands]"
    if "\<forall>k rc. looks w \<le> k \<longrightarrow> OnDisconnect rc \<notin> set (callbacks env k)"
    using send_outcomes_connected [OF q(1) that, of "length all_commands" 0] by simp
  ultimately show ?thesis
    using main_connected [OF assms(1)] by simp
qed

text \<open>
  The statement at the table \<open>{"a": {"b": "X1", "c": "X2"}}\<close> with a failure injected on
  \<open>a.b\<close> (the first publish returns the code 4), and the trace of that run.
\<close>

theorem publish_failure_does_not_abort_witness:
  "prepare example_env example_config =
     (Inr ([(''a.b'', ''X1''), (''a.c'', ''X2'')],
           \<lparr>mqtt_host = ''localhost'', mqtt_port = 1883, mqtt_topic = ''smartir/send_command'',
            mqtt_username = None, mqtt_password = None, client = Some Client, connected = True\<rparr>),
      \<lparr>trace = [Log INFO MsgLoaded, Log INFO (MsgFound 2), ClientCreate,
                Log INFO (MsgConnecting ''localhost'' 1883),
                ClientConnect ''localhost'' 1883 60, LoopStart, Sleep, Sleep],
       looks = 4, publishes = 0, prompts = 0\<rparr>)
   \<and> (\<forall>k. continues (input_result example_env k))
   \<and> (\<forall>k. publish_result example_env k \<noteq> PublishRaises KeyboardInterrupt)
   \<and> (\<forall>k rc. OnDisconnect rc \<notin> set (callbacks example_env k))
   \<and> publish_result example_env 0 = PublishRc 4
   \<and> publish_result example_env 1 = PublishRc 0
   \<and> fst (main example_env example_config) = Returned
   \<and> trace (snd (main example_env example_config)) =
       [Log INFO MsgLoaded, Log INFO (MsgFound 2), ClientCreate,
        Log INFO (MsgConnecting ''localhost'' 1883),
        ClientConnect ''localhost'' 1883 60, LoopStart, Sleep, Sleep]
       @ paced_run ''smartir/send_command'' 1 2 [(''a.b'', ''X1''), (''a.c'', ''X2'')]
           [Published 4, Published 0]
       @ [Log INFO MsgCompleted, LoopStop, ClientDisconnect, Log INFO MsgDisconnected]
   \<and> paced_run ''smartir/send_command'' 1 2 [(''a.b'', ''X1''), (''a.c'', ''X2'')]
         [Published 4, Published 0] =
       [PrintHeader 1 2 ''a.b'', PrintData ''X1'',
        Publish ''smartir/send_command'' (json_dumps_dict1 ''ir_code_to_send'' ''X1''),
        Log ERROR (MsgPublishFailed ''a.b'' 4), Log WARNING (MsgFailedToSend ''a.b''),
        Input prompt_text,
        PrintHeader 2 2 ''a.c'', PrintData ''X2'',
        Publish ''smartir/send_command'' (json_dumps_dict1 ''ir_code_to_send'' ''X2''),
        Log INFO (MsgSent ''a.c'' ''smartir/send_command'')]"
proof -
  let ?t = "\<lparr>mqtt_host = ''localhost'', mqtt_port = 1883, mqtt_topic = ''smartir/send_command'',
            mqtt_username = None, mqtt_password = None, client = Some Client, connected = True\<rparr>"
  let ?w = "\<lparr>trace = [Log INFO MsgLoaded, Log INFO (MsgFound 2), ClientCreate,
                Log INFO (MsgConnecting ''localhost'' 1883),
                ClientConnect ''localhost'' 1883 60, LoopStart, Sleep, Sleep],
       looks = 4, publishes = 0, prompts = 0\<rparr>"
  have p: "prepare example_env example_config =
     (Inr ([(''a.b'', ''X1''), (''a.c'', ''X2'')], ?t), ?w)"
    by code_simp
  have c: "\<forall>k. continues (input_result example_env k)"
    by (simp add: example_env_def py_lower_def py_strip_def)
  have i: "\<forall>k. publish_result example_env k \<noteq> PublishRaises KeyboardInterrupt"
    by (simp add: example_env_def)
  have d: "\<forall>k rc. OnDisconnect rc \<notin> set (callbacks example_env k)"
    by (simp add: example_env_def)
  have r: "publish_result example_env 0 = PublishRc 4" "publish_result example_env 1 = PublishRc 0"
    by (simp_all add: example_env_def)
  have len2: "length [(''a.b'', ''X1''), (''a.c'', ''X2'')] = 2"
    by simp
  have tpc: "cfg_topic example_config = ''smartir/send_command''"
    by (simp add: example_config_def)
  note th = publish_failure_does_not_abort [OF p c i, unfolded len2 tpc]
  from th d have outs: "send_outcomes example_env 2 ?t (looks ?w) 0 =
      map (\<lambda>j. outcome_of (publish_result example_env j)) [0..<2]"
    by blast
  have "[0..<2] = [0, Suc 0]"
    by (simp add: upt_conv_Cons)
  with outs r have outs': "send_outcomes example_env 2 ?t (looks ?w) 0 = [Published 4, Published 0]"
    by simp
  from th have a: "fst (main example_env example_config) = Returned"
    by blast
  from th have "trace (snd (main example_env example_config)) =
         trace ?w @ paced_run ''smartir/send_command'' 1 2 [(''a.b'', ''X1''), (''a.c'', ''X2'')]
                     (send_outcomes example_env 2 ?t (looks ?w) 0)
         @ [Log INFO MsgCompleted, LoopStop, ClientDisconnect, Log INFO MsgDisconnected]"
    by blast
  then have t: "trace (snd (main example_env example_config)) =
       [Log INFO MsgLoaded, Log INFO (MsgFound 2), ClientCreate,
        Log INFO (MsgConnecting ''localhost'' 1883),
        ClientConnect ''localhost'' 1883 60, LoopStart, Sleep, Sleep]
       @ paced_run ''smartir/send_command'' 1 2 [(''a.b'', ''X1''), (''a.c'', ''X2'')]
           [Published 4, Published 0]
       @ [Log INFO MsgCompleted, LoopStop, ClientDisconnect, Log INFO MsgDisconnected]"
    unfolding outs' by simp
  have e: "paced_run ''smartir/send_command'' 1 2 [(''a.b'', ''X1''), (''a.c'', ''X2'')]
         [Published 4, Published 0] =
       [PrintHeader 1 2 ''a.b'', PrintData ''X1'',
        Publish ''smartir/send_command'' (json_dumps_dict1 ''ir_code_to_send'' ''X1''),
        Log ERROR (MsgPublishFailed ''a.b'' 4), Log WARNING (MsgFailedToSend ''a.b''),
        Input prompt_text,
        PrintHeader 2 2 ''a.c'', PrintData ''X2'',
        Publish ''smartir/send_command'' (json_dumps_dict1 ''ir_code_to_send'' ''X2''),
        Log INFO (MsgSent ''a.c'' ''smartir/send_command'')]"
    by (simp add: send_failed_def)
  from p c i d r a t e show ?thesis
    by blast
qed

text \<open>
  The same batch when the connection drops after the first send: the second attempt is
  refused by \<open>send_command\<close>, which is reported as a warning as well.
\<close>

lemma batch_after_drop_example:
  "main drop_env example_config =
     (Returned,
      \<lparr>trace = [Log INFO MsgLoaded, Log INFO (MsgFound 2), ClientCreate,
                Log INFO (MsgConnecting ''localhost'' 1883),
                ClientConnect ''localhost'' 1883 60, LoopStart, Sleep, Sleep,
                PrintHeader 1 2 ''a.b'', PrintData ''X1'',
                Publish ''smartir/send_command'' (json_dumps_dict1 ''ir_code_to_send'' ''X1''),
                Log ERROR (MsgPublishFailed ''a.b'' 4), Log WARNING (MsgFailedToSend ''a.b''),
                Input prompt_text,
                PrintHeader 2 2 ''a.c'', PrintData ''X2'',
                Log ERROR MsgNotConnected, Log WARNING (MsgFailedToSend ''a.c''),
                Log INFO MsgCompleted, LoopStop, ClientDisconnect, Log INFO MsgDisconnected],
       looks = 6, publishes = 1, prompts = 1\<rparr>)"
  by code_simp

text \<open>
  Claim C8, amended. In every run in which \<open>connect\<close> returned \<open>True\<close> (the tester was
  connected when \<open>connect\<close> looked at the flag for the last time, so the run reached the
  batch), whatever the broker and the operator do afterwards: a batch that completes, a quit
  at a prompt, an interruption or another exception during a publish or at a prompt;
  \<open>main\<close> returns and the trace holds exactly one \<open>loop_stop\<close> and, after it, exactly one
  \<open>disconnect\<close>. When there are at least two commands and the operator answers the first
  prompt with the quit token, no command but the first is published.
\<close>

theorem teardown_exactly_once:
  assumes "prepare env cfg = (Inr (all_commands, mqtt_client), w)"
  shows "fst (main env cfg) = Returned
     \<and> filter is_teardown (trace (snd (main env cfg))) = [LoopStop, ClientDisconnect]
     \<and> (2 \<le> length all_commands \<and> quits (input_result env 0) \<longrightarrow>
          filter is_publish (trace (snd (main env cfg))) = []
          \<or> filter is_publish (trace (snd (main env cfg))) =
              [Publish (cfg_topic cfg)
                 (json_dumps_dict1 ''ir_code_to_send'' (snd (hd all_commands)))])"
proof -
  note p = prepare_connected [OF assms]
  note m = main_connected [OF assms]
  from p(1) have cl: "client mqtt_client \<noteq> None"
    by simp
  have td: "filter is_teardown (trace (snd (main env cfg))) = [LoopStop, ClientDisconnect]"
    using session_teardown [OF cl, of env all_commands w] p(4) m by simp
  have quit: "filter is_publish (trace (snd (main env cfg))) = []
          \<or> filter is_publish (trace (snd (main env cfg))) =
              [Publish (cfg_topic cfg)
                 (json_dumps_dict1 ''ir_code_to_send'' (snd (hd all_commands)))]"
    if two: "2 \<le> length all_commands" and q: "quits (input_result env 0)"
  proof -
    from two obtain name cmd rest where ac: "all_commands = (name, cmd) # rest"
      by (cases all_commands) auto
    obtain r s1 w1 where
      run: "run_commands env 1 (length all_commands) ((name, cmd) # rest) mqtt_client w = (r, s1, w1)"
      by (cases "run_commands env 1 (length all_commands) ((name, cmd) # rest) mqtt_client w")
    from two have lt: "1 < length all_commands"
      by simp
    from q p(3) have "quits (input_result env (prompts w))"
      by simp
    from run_commands_quit [OF cl lt this run] p(2,5)
    have pub: "filter is_publish (trace w1) = []
        \<or> filter is_publish (trace w1) = [Publish (cfg_topic cfg) (json_dumps_dict1 ''ir_code_to_send'' cmd)]"
      by simp
    from run_commands_frame [OF cl run] p(1) obtain c where "client s1 = Some c"
      by auto
    with run ac have "filter is_publish (trace (session env all_commands mqtt_client w)) =
        filter is_publish (trace w1)"
      by (cases r) (simp_all add: session_def Let_def disconnect_def emit_def)
    with pub m ac show ?thesis
      by simp
  qed
  from m td quit show ?thesis
    by simp
qed

text \<open>The statement at an operator who answers \<open>q\<close> after the first of two commands.\<close>

theorem teardown_exactly_once_witness:
  "prepare quitting_env example_config =
     (Inr ([(''a.b'', ''X1''), (''a.c'', ''X2'')],
           \<lparr>mqtt_host = ''localhost'', mqtt_port = 1883, mqtt_topic = ''smartir/send_command'',
            mqtt_username = None, mqtt_password = None, client = Some Client, connected = True\<rparr>),
      \<lparr>trace = [Log INFO MsgLoaded, Log INFO (MsgFound 2), ClientCreate,
                Log INFO (MsgConnecting ''localhost'' 1883),
                ClientConnect ''localhost'' 1883 60, LoopStart, Sleep, Sleep],
       looks = 4, publishes = 0, prompts = 0\<rparr>)
   \<and> quits (input_result quitting_env 0)
   \<and> fst (main quitting_env example_config) = Returned
   \<and> filter is_teardown (trace (snd (main quitting_env example_config))) =
       [LoopStop, ClientDisconnect]
   \<and> filter is_publish (trace (snd (main quitting_env example_config))) =
       [Publish ''smartir/send_command'' (json_dumps_dict1 ''ir_code_to_send'' ''X1'')]"
proof -
  have p: "prepare quitting_env example_config =
     (Inr ([(''a.b'', ''X1''), (''a.c'', ''X2'')],
           \<lparr>mqtt_host = ''localhost'', mqtt_port = 1883, mqtt_topic = ''smartir/send_command'',
            mqtt_username = None, mqtt_password = None, client = Some Client, connected = True\<rparr>),
      \<lparr>trace = [Log INFO MsgLoaded, Log INFO (MsgFound 2), ClientCreate,
                Log INFO (MsgConnecting ''localhost'' 1883),
                ClientConnect ''localhost'' 1883 60, LoopStart, Sleep, Sleep],
       looks = 4, publishes = 0, prompts = 0\<rparr>)"
    by code_simp
  have q: "quits (input_result quitting_env 0)"
    by code_simp
  from teardown_exactly_once [OF p]
  have a: "fst (main quitting_env example_config) = Returned"
    and b: "filter is_teardown (trace (snd (main quitting_env example_config))) =
       [LoopStop, ClientDisconnect]"
    by blast+
  have c: "filter is_publish (trace (snd (main quitting_env example_config))) =
       [Publish ''smartir/send_command'' (json_dumps_dict1 ''ir_code_to_send'' ''X1'')]"
    by code_simp
  from p q a b c show ?thesis
    by blast
qed

text \<open>
  Claim C8 as it was stated fails at a broker that accepts the connection and loses it
  again before the main thread looks: the connected-callback has run and set the flag, the
  network loop is started, yet \<open>connect\<close> finds the flag down at every look, \<open>main\<close> ends the
  process with status 1 and the trace has neither \<open>loop_stop\<close> nor \<open>disconnect\<close>.
\<close>

theorem teardown_skipped_after_flap:
  "callbacks flap_env 0 = [OnConnect 0, OnDisconnect 1]
   \<and> connected (on_connect 0 (ToshibaMQTTTester ''localhost'' 1883 ''smartir/send_command'' None None))
   \<and> main flap_env example_config =
       (SysExit 1,
        \<lparr>trace = [Log INFO MsgLoaded, Log INFO (MsgFound 2), ClientCreate,
                  Log INFO (MsgConnecting ''localhost'' 1883),
                  ClientConnect ''localhost'' 1883 60, LoopStart,
                  Sleep, Sleep, Sleep, Sleep, Sleep, Sleep, Sleep, Sleep, Sleep, Sleep,
                  Sleep, Sleep, Sleep, Sleep, Sleep, Sleep, Sleep, Sleep, Sleep, Sleep,
                  Log ERROR MsgConnectTimeout, Log ERROR MsgFailedToConnect],
         looks = 22, publishes = 0, prompts = 0\<rparr>)
   \<and> filter is_teardown (trace (snd (main flap_env example_config))) = []"
  by code_simp

text \<open>
  Two more endings of the same batch: Ctrl-C at the first prompt, and a standard input that
  is closed. Each run ends with one teardown.
\<close>

lemma teardown_after_interrupt_example:
  "main interrupting_env example_config =
     (Returned,
      \<lparr>trace = [Log INFO MsgLoaded, Log INFO (MsgFound 2), ClientCreate,
                Log INFO (MsgConnecting ''localhost'' 1883),
                ClientConnect ''localhost'' 1883 60, LoopStart, Sleep, Sleep,
                PrintHeader 1 2 ''a.b'', PrintData ''X1'',
                Publish ''smartir/send_command'' (json_dumps_dict1 ''ir_code_to_send'' ''X1''),
                Log ERROR (MsgPublishFailed ''a.b'' 4), Log WARNING (MsgFailedToSend ''a.b''),
                Input prompt_text, Log INFO MsgInterrupted,
                LoopStop, ClientDisconnect, Log INFO MsgDisconnected],
       looks = 5, publishes = 1, prompts = 1\<rparr>)"
  by code_simp

lemma teardown_after_exception_example:
  "main closed_stdin_env example_config =
     (Returned,
      \<lparr>trace = [Log INFO MsgLoaded, Log INFO (MsgFound 2), ClientCreate,
                Log INFO (MsgConnecting ''localhost'' 1883),
                ClientConnect ''localhost'' 1883 60, LoopStart, Sleep, Sleep,
                PrintHeader 1 2 ''a.b'', PrintData ''X1'',
                Publish ''smartir/send_command'' (json_dumps_dict1 ''ir_code_to_send'' ''X1''),
                Log ERROR (MsgPublishFailed ''a.b'' 4), Log WARNING (MsgFailedToSend ''a.b''),
                Input prompt_text, Log ERROR (MsgUnexpected EOFError),
                LoopStop, ClientDisconnect, Log INFO MsgDisconnected],
       looks = 5, publishes = 1, prompts = 1\<rparr>)"
  by code_simp

end
